theory Spec2Isabelle
  imports Complex_Main
begin

section \<open>JavaScript numbers\<close>

text \<open>
  A JavaScript Number is an IEEE 754 binary64 value. The finite ones are modelled by the
  rational they denote, the others by constructors of their own. The sign of zero is not
  represented: the adapter only ever shows a number through a JSON body, and JSON prints
  both zeros as \<open>0\<close>.
\<close>

datatype jsnum = NaN | PInf | NInf | Fin rat

text \<open>The number of binary digits of a positive integer.\<close>

function bit_length :: "int \<Rightarrow> int" where
  "bit_length n = (if n \<le> 0 then 0 else 1 + bit_length (n div 2))"
  by pat_completeness auto
termination
  by (relation "measure nat") auto

declare bit_length.simps [simp del]

text \<open>\<open>floor_log2 a\<close> is the integer \<open>e\<close> with \<open>2^e \<le> a < 2^(e+1)\<close>, for \<open>a > 0\<close>.\<close>

definition floor_log2 :: "rat \<Rightarrow> int" where
  "floor_log2 a =
     (if 1 \<le> a then bit_length \<lfloor>a\<rfloor> - 1
      else - bit_length (\<lceil>1 / a\<rceil> - 1))"

definition pow2 :: "int \<Rightarrow> rat" where
  "pow2 e = (if 0 \<le> e then 2 ^ nat e else 1 / 2 ^ nat (- e))"

definition pow10 :: "int \<Rightarrow> rat" where
  "pow10 e = (if 0 \<le> e then 10 ^ nat e else 1 / 10 ^ nat (- e))"

definition round_half_even :: "rat \<Rightarrow> int" where
  "round_half_even r =
     (let f = \<lfloor>r\<rfloor>; d = r - of_int f
      in if d < 1 / 2 then f else if 1 / 2 < d then f + 1 else if even f then f else f + 1)"

text \<open>
  The Number value for a rational (ECMAScript 6.1.6.1): the nearest binary64 value, ties
  to the even significand, the infinities beyond the largest finite value. The spacing of
  the doubles around \<open>a\<close> is \<open>2^(e-52)\<close>, with \<open>e\<close> no less than \<open>-1022\<close> (the subnormals).
  The first test of the result only saves work: below \<open>2^1023\<close> nothing overflows.
\<close>

definition round_double :: "rat \<Rightarrow> jsnum" where
  "round_double q =
     (if q = 0 then Fin 0
      else
        let a = \<bar>q\<bar>;
            e = max (floor_log2 a) (- 1022);
            u = pow2 (e - 52);
            r = of_int (round_half_even (a / u)) * u
        in if e < 1023 then Fin (if 0 < q then r else - r)
           else if 2 ^ 1024 \<le> r then (if 0 < q then PInf else NInf)
           else Fin (if 0 < q then r else - r))"

text \<open>\<open>Number.isFinite\<close>.\<close>

fun isFinite :: "jsnum \<Rightarrow> bool" where
  "isFinite (Fin q) = True"
| "isFinite _ = False"

text \<open>
  \<open>x > y\<close> for an exact left operand and a Number on the right; a comparison with \<open>NaN\<close>
  is false.
\<close>

fun js_gt :: "rat \<Rightarrow> jsnum \<Rightarrow> bool" where
  "js_gt x (Fin y) = (y < x)"
| "js_gt x NInf = True"
| "js_gt x PInf = False"
| "js_gt x NaN = False"

section \<open>Strings and numbers\<close>

text \<open>A string is a list of code units; only the code units below 256 are represented.\<close>

definition is_digit :: "char \<Rightarrow> bool" where
  "is_digit c = (48 \<le> (of_char c :: int) \<and> (of_char c :: int) \<le> 57)"

definition digit_val :: "char \<Rightarrow> int" where
  "digit_val c = of_char c - 48"

definition digit_char :: "int \<Rightarrow> char" where
  "digit_char d = char_of (48 + d)"

definition int_of_digits :: "string \<Rightarrow> int" where
  "int_of_digits ds = foldl (\<lambda>a c. 10 * a + digit_val c) 0 ds"

text \<open>
  The decimal digits of an integer that is not negative, without leading zeros (\<open>0\<close> is
  \<open>''0''\<close>).
\<close>

function dec :: "int \<Rightarrow> string" where
  "dec n = (if n < 10 then [digit_char n] else dec (n div 10) @ [digit_char (n mod 10)])"
  by pat_completeness auto
termination
  by (relation "measure nat") auto

declare dec.simps [simp del]

text \<open>
  \<open>StrWhiteSpaceChar\<close>: TAB, LF, VT, FF, CR, SP and NBSP are the white space and line
  terminators below 256.
\<close>

definition is_ws :: "char \<Rightarrow> bool" where
  "is_ws c = ((of_char c :: int) \<in> {9, 10, 11, 12, 13, 32, 160})"

definition trim :: "string \<Rightarrow> string" where
  "trim s = rev (dropWhile is_ws (rev (dropWhile is_ws s)))"

definition parse_uint :: "string \<Rightarrow> int option" where
  "parse_uint s = (if s \<noteq> [] \<and> list_all is_digit s then Some (int_of_digits s) else None)"

text \<open>\<open>ExponentPart\<close>, or nothing, up to the end of the string.\<close>

definition parse_exponent :: "string \<Rightarrow> int option" where
  "parse_exponent s =
     (case s of
        [] \<Rightarrow> Some 0
      | c # t \<Rightarrow>
          if c = CHR ''e'' \<or> c = CHR ''E'' then
            (case t of
               [] \<Rightarrow> None
             | d # u \<Rightarrow>
                 if d = CHR ''+'' then parse_uint u
                 else if d = CHR ''-'' then map_option uminus (parse_uint u)
                 else parse_uint t)
          else None)"

text \<open>
  \<open>StrUnsignedDecimalLiteral\<close> but \<open>Infinity\<close>: digits, an optional point and
  fraction, an optional exponent, with a digit before or after the point.
\<close>

definition parse_unsigned_decimal :: "string \<Rightarrow> rat option" where
  "parse_unsigned_decimal s =
     (let ip = takeWhile is_digit s;
          r1 = dropWhile is_digit s;
          dot = (case r1 of [] \<Rightarrow> False | c # t \<Rightarrow> c = CHR ''.'');
          fp = (if dot then takeWhile is_digit (tl r1) else []);
          r2 = (if dot then dropWhile is_digit (tl r1) else r1)
      in if ip = [] \<and> fp = [] then None
         else
           (case parse_exponent r2 of
              None \<Rightarrow> None
            | Some ex \<Rightarrow>
                Some (of_int (int_of_digits (ip @ fp)) * pow10 (ex - int (length fp)))))"

definition parse_decimal :: "string \<Rightarrow> jsnum" where
  "parse_decimal s =
     (let neg = (case s of [] \<Rightarrow> False | c # t \<Rightarrow> c = CHR ''-'');
          sgn = (case s of [] \<Rightarrow> False | c # t \<Rightarrow> c = CHR ''-'' \<or> c = CHR ''+'');
          body = (if sgn then tl s else s)
      in if body = ''Infinity'' then (if neg then NInf else PInf)
         else
           (case parse_unsigned_decimal body of
              None \<Rightarrow> NaN
            | Some v \<Rightarrow> round_double (if neg then - v else v)))"

text \<open>The value of a digit of a \<open>NonDecimalIntegerLiteral\<close>; 99 for any other character.\<close>

definition radix_digit :: "char \<Rightarrow> int" where
  "radix_digit c =
     (let n = (of_char c :: int)
      in if 48 \<le> n \<and> n \<le> 57 then n - 48
         else if 97 \<le> n \<and> n \<le> 102 then n - 87
         else if 65 \<le> n \<and> n \<le> 70 then n - 55
         else 99)"

definition parse_radix :: "int \<Rightarrow> string \<Rightarrow> jsnum" where
  "parse_radix b s =
     (if s \<noteq> [] \<and> list_all (\<lambda>c. radix_digit c < b) s
      then round_double (of_int (foldl (\<lambda>a c. b * a + radix_digit c) 0 s))
      else NaN)"

text \<open>
  \<open>StringToNumber\<close> (ECMAScript 7.1.4.1.1), what \<open>Number(s)\<close> is for a string: white
  space trimmed, the empty string is 0, a literal with prefix \<open>0x\<close>, \<open>0o\<close> or \<open>0b\<close> has no
  sign, anything that is not a literal is \<open>NaN\<close>. The value is correctly rounded, as the
  engines do (the standard lets a literal of more than 20 significant digits be rounded
  from its first 20).
\<close>

definition string_to_number :: "string \<Rightarrow> jsnum" where
  "string_to_number s =
     (let t = trim s
      in if t = [] then Fin 0
         else if take 2 t = ''0x'' \<or> take 2 t = ''0X'' then parse_radix 16 (drop 2 t)
         else if take 2 t = ''0o'' \<or> take 2 t = ''0O'' then parse_radix 8 (drop 2 t)
         else if take 2 t = ''0b'' \<or> take 2 t = ''0B'' then parse_radix 2 (drop 2 t)
         else parse_decimal t)"

section \<open>Values, exceptions and the engine\<close>

text \<open>
  What \<open>JSON.parse\<close> returns, and \<open>undefined\<close>, which optional chaining produces. An
  object is the list of its own properties.
\<close>

datatype jsval =
    Undefined
  | Null
  | Bool bool
  | Num jsnum
  | Str string
  | Arr "jsval list"
  | Obj "(string \<times> jsval) list"

text \<open>A thrown \<open>Error\<close> object: the name of its class and its message.\<close>

datatype exn = Exn string string

text \<open>
  Two things are left to the JavaScript engine, and are parameters of the model:
  \<^item> \<open>date_other\<close>: \<open>Date.parse\<close> on a string that is not one of the forms of
    \<open>iso_utc\<close> below. ECMAScript lets an engine fall back to heuristics of its own on a
    string outside its date-time format, and the engines differ on calendar dates that do
    not exist. \<open>None\<close> is \<open>NaN\<close>.
  \<^item> \<open>num_str\<close>: \<open>Number::toString\<close> on a positive finite number that is not an integer
    of magnitude at most \<open>2^53\<close> (the shortest digits that read back as the number; the
    standard does not fix the last digit).
\<close>

record engine =
  date_other :: "string \<Rightarrow> int option"
  num_str :: "rat \<Rightarrow> string"

text \<open>\<open>ToBoolean\<close>, as \<open>!v\<close> and \<open>||\<close> use it.\<close>

fun truthy :: "jsval \<Rightarrow> bool" where
  "truthy Undefined = False"
| "truthy Null = False"
| "truthy (Bool b) = b"
| "truthy (Num n) = (n \<noteq> NaN \<and> n \<noteq> Fin 0)"
| "truthy (Str s) = (s \<noteq> [])"
| "truthy (Arr xs) = True"
| "truthy (Obj kv) = True"

text \<open>
  \<open>Number::toString\<close> (radix 10). An integer of magnitude at most \<open>2^53\<close> prints as its
  digits; a negative number as \<open>-\<close> and the string of its magnitude.
\<close>

definition pos_to_string :: "engine \<Rightarrow> rat \<Rightarrow> string" where
  "pos_to_string E a =
     (if a = of_int \<lfloor>a\<rfloor> \<and> a \<le> 9007199254740992 then dec \<lfloor>a\<rfloor> else num_str E a)"

fun number_to_string :: "engine \<Rightarrow> jsnum \<Rightarrow> string" where
  "number_to_string E NaN = ''NaN''"
| "number_to_string E PInf = ''Infinity''"
| "number_to_string E NInf = ''-Infinity''"
| "number_to_string E (Fin q) =
     (if q < 0 then ''-'' @ pos_to_string E (- q) else pos_to_string E q)"

text \<open>
  \<open>ToString\<close>, as a template literal applies it. An array is joined with commas
  (\<open>Array.prototype.join\<close>: \<open>undefined\<close> and \<open>null\<close> elements are empty). An object is
  \<open>[object Object]\<close>, unless it has a property of its own named \<open>toString\<close>: a parsed
  value is not callable, so \<open>OrdinaryToPrimitive\<close> finds no method that returns a primitive
  and throws.
\<close>

definition not_primitive :: exn where
  "not_primitive = Exn ''TypeError'' ''Cannot convert object to primitive value''"

fun to_string :: "engine \<Rightarrow> jsval \<Rightarrow> exn + string"
  and join_elems :: "engine \<Rightarrow> jsval list \<Rightarrow> exn + string"
  and elem_string :: "engine \<Rightarrow> jsval \<Rightarrow> exn + string" where
  "to_string E Undefined = Inr ''undefined''"
| "to_string E Null = Inr ''null''"
| "to_string E (Bool b) = Inr (if b then ''true'' else ''false'')"
| "to_string E (Num n) = Inr (number_to_string E n)"
| "to_string E (Str s) = Inr s"
| "to_string E (Arr xs) = join_elems E xs"
| "to_string E (Obj kv) =
     (if ''toString'' \<in> set (map fst kv) then Inl not_primitive else Inr ''[object Object]'')"
| "join_elems E [] = Inr []"
| "join_elems E (x # xs) =
     (case elem_string E x of
        Inl e \<Rightarrow> Inl e
      | Inr s \<Rightarrow>
          if xs = [] then Inr s
          else (case join_elems E xs of Inl e \<Rightarrow> Inl e | Inr r \<Rightarrow> Inr (s @ '','' @ r)))"
| "elem_string E Undefined = Inr []"
| "elem_string E Null = Inr []"
| "elem_string E (Bool b) = to_string E (Bool b)"
| "elem_string E (Num n) = to_string E (Num n)"
| "elem_string E (Str s) = to_string E (Str s)"
| "elem_string E (Arr xs) = to_string E (Arr xs)"
| "elem_string E (Obj kv) = to_string E (Obj kv)"

text \<open>
  \<open>Number(v)\<close>: \<open>ToNumber\<close>. An array or an object goes through \<open>ToPrimitive\<close>, which
  ends in the same string as \<open>ToString\<close> (\<open>valueOf\<close> returns the object itself), or
  throws as it does.
\<close>

fun Number :: "engine \<Rightarrow> jsval \<Rightarrow> exn + jsnum" where
  "Number E Undefined = Inr NaN"
| "Number E Null = Inr (Fin 0)"
| "Number E (Bool b) = Inr (Fin (if b then 1 else 0))"
| "Number E (Num n) = Inr n"
| "Number E (Str s) = Inr (string_to_number s)"
| "Number E v = (case to_string E v of Inl e \<Rightarrow> Inl e | Inr s \<Rightarrow> Inr (string_to_number s))"

text \<open>
  Reading a property. The code reads the keys \<open>bmx\<close>, \<open>series\<close>, \<open>datos\<close>, \<open>dato\<close>,
  \<open>fecha\<close> and the index \<open>0\<close> only, none of which a prototype provides: an object
  answers from its own properties, an array and a string answer the index \<open>0\<close>, and
  everything else is \<open>undefined\<close>.
\<close>

fun get_prop :: "jsval \<Rightarrow> string \<Rightarrow> jsval" where
  "get_prop (Obj kv) k = (case map_of kv k of Some v \<Rightarrow> v | None \<Rightarrow> Undefined)"
| "get_prop (Arr xs) k = (if k = ''0'' then (case xs of [] \<Rightarrow> Undefined | x # _ \<Rightarrow> x) else Undefined)"
| "get_prop (Str s) k = (if k = ''0'' then (case s of [] \<Rightarrow> Undefined | c # _ \<Rightarrow> Str [c]) else Undefined)"
| "get_prop v k = Undefined"

text \<open>Optional chaining, \<open>v?.k\<close> and \<open>v?.[0]\<close>.\<close>

fun opt_chain :: "jsval \<Rightarrow> string \<Rightarrow> jsval" where
  "opt_chain Undefined k = Undefined"
| "opt_chain Null k = Undefined"
| "opt_chain v k = get_prop v k"

text \<open>
  \<open>x.toFixed(4)\<close> (ECMAScript 21.1.3.3). For a finite \<open>x\<close>: the sign, then for a
  magnitude below \<open>10^21\<close> the integer \<open>n\<close> nearest to \<open>x * 10^4\<close> (the larger of two),
  its digits padded to five with zeros, and a point before the last four.
\<close>

definition fixed4 :: "engine \<Rightarrow> rat \<Rightarrow> string" where
  "fixed4 E x =
     (let s = (if x < 0 then ''-'' else []);
          a = \<bar>x\<bar>
      in if 10 ^ 21 \<le> a then s @ number_to_string E (Fin a)
         else
           let n = \<lfloor>a * 10000 + 1 / 2\<rfloor>;
               m = dec n;
               m = (if length m \<le> 4 then replicate (5 - length m) (CHR ''0'') @ m else m);
               k = length m
           in s @ take (k - 4) m @ ''.'' @ drop (k - 4) m)"

fun toFixed4 :: "engine \<Rightarrow> jsnum \<Rightarrow> string" where
  "toFixed4 E (Fin x) = fixed4 E x"
| "toFixed4 E n = number_to_string E n"

section \<open>Dates\<close>

text \<open>
  A time value is a number of milliseconds since 1970-01-01T00:00:00Z, an integer of
  magnitude at most \<open>8.64 * 10^15\<close>. Days are counted in the proleptic Gregorian calendar
  (ECMAScript 21.4.1), here with the usual closed forms over eras of 400 years that start
  on 1 March.
\<close>

definition msPerDay :: int where
  "msPerDay = 86400000"

definition is_leap :: "int \<Rightarrow> bool" where
  "is_leap y = (y mod 4 = 0 \<and> (y mod 100 \<noteq> 0 \<or> y mod 400 = 0))"

definition days_in_month :: "int \<Rightarrow> int \<Rightarrow> int" where
  "days_in_month y m =
     (if m = 2 then (if is_leap y then 29 else 28)
      else if m = 4 \<or> m = 6 \<or> m = 9 \<or> m = 11 then 30
      else 31)"

definition days_from_civil :: "int \<Rightarrow> int \<Rightarrow> int \<Rightarrow> int" where
  "days_from_civil y m d =
     (let y1 = (if m \<le> 2 then y - 1 else y);
          era = y1 div 400;
          yoe = y1 - era * 400;
          mp = (if 2 < m then m - 3 else m + 9);
          doy = (153 * mp + 2) div 5 + d - 1;
          doe = yoe * 365 + yoe div 4 - yoe div 100 + doy
      in era * 146097 + doe - 719468)"

definition civil_from_days :: "int \<Rightarrow> int \<times> int \<times> int" where
  "civil_from_days z =
     (let z1 = z + 719468;
          era = z1 div 146097;
          doe = z1 - era * 146097;
          yoe = (doe - doe div 1460 + doe div 36524 - doe div 146096) div 365;
          doy = doe - (365 * yoe + yoe div 4 - yoe div 100);
          mp = (5 * doy + 2) div 153;
          d = doy - (153 * mp + 2) div 5 + 1;
          m = (if mp < 10 then mp + 3 else mp - 9);
          y = yoe + era * 400
      in (if m \<le> 2 then y + 1 else y, m, d))"

text \<open>
  \<open>matches pat s\<close>: \<open>s\<close> has the shape of \<open>pat\<close>, where \<open>d\<close> in the pattern stands for
  any digit and every other character for itself. \<open>field i n s\<close> is the number written in
  the \<open>n\<close> characters of \<open>s\<close> from position \<open>i\<close>.
\<close>

definition matches :: "string \<Rightarrow> string \<Rightarrow> bool" where
  "matches pat s =
     (length pat = length s \<and>
      list_all (\<lambda>(p, c). if p = CHR ''d'' then is_digit c else p = c) (zip pat s))"

definition field :: "nat \<Rightarrow> nat \<Rightarrow> string \<Rightarrow> int" where
  "field i n s = int_of_digits (take n (drop i s))"

definition valid_date :: "int \<Rightarrow> int \<Rightarrow> int \<Rightarrow> int option" where
  "valid_date y m d =
     (if 1 \<le> m \<and> m \<le> 12 \<and> 1 \<le> d \<and> d \<le> days_in_month y m
      then Some (days_from_civil y m d) else None)"

text \<open>The date-only forms \<open>YYYY\<close>, \<open>YYYY-MM\<close> and \<open>YYYY-MM-DD\<close>, as a day number.\<close>

definition iso_date :: "string \<Rightarrow> int option" where
  "iso_date s =
     (if matches ''dddd'' s then valid_date (field 0 4 s) 1 1
      else if matches ''dddd-dd'' s then valid_date (field 0 4 s) (field 5 2 s) 1
      else if matches ''dddd-dd-dd'' s then valid_date (field 0 4 s) (field 5 2 s) (field 8 2 s)
      else None)"

definition valid_time :: "int \<Rightarrow> int \<Rightarrow> int \<Rightarrow> int \<Rightarrow> int option" where
  "valid_time h m s ms =
     (if h \<le> 23 \<and> m \<le> 59 \<and> s \<le> 59
      then Some (((h * 60 + m) * 60 + s) * 1000 + ms) else None)"

text \<open>The time forms with the offset \<open>Z\<close>, as milliseconds within the day.\<close>

definition iso_time :: "string \<Rightarrow> int option" where
  "iso_time s =
     (if matches ''dd:ddZ'' s then valid_time (field 0 2 s) (field 3 2 s) 0 0
      else if matches ''dd:dd:ddZ'' s then valid_time (field 0 2 s) (field 3 2 s) (field 6 2 s) 0
      else if matches ''dd:dd:dd.dddZ'' s
        then valid_time (field 0 2 s) (field 3 2 s) (field 6 2 s) (field 9 3 s)
      else None)"

text \<open>
  The strings of the ECMAScript date-time format (21.4.1.32) on which every engine
  agrees and that this program builds or stores: a date-only form with a four-digit year
  and a day that exists, \<open>T\<close>, and a time before 24:00 with the offset \<open>Z\<close>.
\<close>

definition iso_utc :: "string \<Rightarrow> int option" where
  "iso_utc s =
     (let d = takeWhile (\<lambda>c. c \<noteq> CHR ''T'') s;
          r = dropWhile (\<lambda>c. c \<noteq> CHR ''T'') s
      in (case r of
            [] \<Rightarrow> None
          | _ # t \<Rightarrow>
              (case iso_date d of
                 None \<Rightarrow> None
               | Some days \<Rightarrow>
                   (case iso_time t of
                      None \<Rightarrow> None
                    | Some ms \<Rightarrow> Some (days * msPerDay + ms)))))"

text \<open>\<open>TimeClip\<close>: a time value out of range is \<open>NaN\<close>.\<close>

definition TimeClip :: "int \<Rightarrow> int option" where
  "TimeClip t = (if \<bar>t\<bar> \<le> 8640000000000000 then Some t else None)"

text \<open>\<open>Date.parse(s)\<close>, which is also the time value of \<open>new Date(s)\<close>; \<open>None\<close> is \<open>NaN\<close>.\<close>

definition Date_parse :: "engine \<Rightarrow> string \<Rightarrow> int option" where
  "Date_parse E s =
     (case iso_utc s of
        Some t \<Rightarrow> Some t
      | None \<Rightarrow> (case date_other E s of None \<Rightarrow> None | Some t \<Rightarrow> TimeClip t))"

definition pad :: "nat \<Rightarrow> int \<Rightarrow> string" where
  "pad w n = replicate (w - length (dec n)) (CHR ''0'') @ dec n"

text \<open>
  \<open>Date.prototype.toISOString\<close> of a valid time value: four digits for a year from 0 to
  9999, a sign and six digits for any other.
\<close>

definition toISOString :: "int \<Rightarrow> string" where
  "toISOString t =
     (let days = t div msPerDay;
          ms = t mod msPerDay;
          (y, m, d) = civil_from_days days;
          year = (if 0 \<le> y \<and> y \<le> 9999 then pad 4 y
                  else (if y < 0 then ''-'' else ''+'') @ pad 6 \<bar>y\<bar>)
      in year @ ''-'' @ pad 2 m @ ''-'' @ pad 2 d @ ''T'' @
         pad 2 (ms div 3600000) @ '':'' @ pad 2 (ms div 60000 mod 60) @ '':'' @
         pad 2 (ms div 1000 mod 60) @ ''.'' @ pad 3 (ms mod 1000) @ ''Z'')"

section \<open>Configuration, cache and upstream\<close>

text \<open>
  The environment variables the two servers read (\<open>process.env\<close>): each is a string or
  absent. \<open>PORT\<close> only names the socket and is left out.
\<close>

record env =
  BANXICO_TOKEN :: "string option"
  BUY_SPREAD_BPS_var :: "string option"
  SELL_SPREAD_BPS_var :: "string option"
  BANXICO_SERIES_ID :: "string option"
  FX_SOURCE :: "string option"
  MAX_CACHE_MS_var :: "string option"

text \<open>\<open>process.env.X || d\<close>, and \<open>Number(process.env.X || d)\<close> for a number \<open>d\<close>.\<close>

definition env_or :: "string option \<Rightarrow> string \<Rightarrow> string" where
  "env_or v d = (case v of None \<Rightarrow> d | Some s \<Rightarrow> if s = [] then d else s)"

definition env_number :: "string option \<Rightarrow> rat \<Rightarrow> jsnum" where
  "env_number v d = (case v of None \<Rightarrow> Fin d | Some s \<Rightarrow> if s = [] then Fin d else string_to_number s)"

definition BUY_SPREAD_BPS :: "env \<Rightarrow> jsnum" where
  "BUY_SPREAD_BPS env = env_number (BUY_SPREAD_BPS_var env) 25"

definition SELL_SPREAD_BPS :: "env \<Rightarrow> jsnum" where
  "SELL_SPREAD_BPS env = env_number (SELL_SPREAD_BPS_var env) 25"

definition SERIES_ID :: "env \<Rightarrow> string" where
  "SERIES_ID env = env_or (BANXICO_SERIES_ID env) ''SF43718''"

definition SOURCE :: "env \<Rightarrow> string" where
  "SOURCE env = env_or (FX_SOURCE env) ''banxico_fix''"

definition MAX_CACHE_MS :: "env \<Rightarrow> jsnum" where
  "MAX_CACHE_MS env = env_number (MAX_CACHE_MS_var env) (60 * 60 * 1000)"

text \<open>The module variable \<open>cache\<close>; \<open>None\<close> is \<open>null\<close>.\<close>

record cache_t =
  asOf :: "string option"
  usd_mxn_mid :: "jsnum option"
  stale :: bool
  raw :: jsval

definition cache_init :: cache_t where
  "cache_init = \<lparr>asOf = None, usd_mxn_mid = None, stale = True, raw = Null\<rparr>"

text \<open>
  What \<open>fetch\<close> was asked, and what it answers: the promise rejects, or resolves to a
  response with a status and a body that \<open>r.json()\<close> parses or rejects.
\<close>

record request =
  url :: string
  headers :: "(string \<times> string) list"

datatype body = NotJson exn | Json jsval

datatype upstream = Rejected exn | Response int body

text \<open>The state of the process: the cache, and the requests sent upstream so far.\<close>

record state =
  cache :: cache_t
  requests :: "request list"

definition banxico_request :: "env \<Rightarrow> request" where
  "banxico_request env =
     \<lparr>url = ''https://www.banxico.org.mx/SieAPIRest/service/v1/series/'' @ SERIES_ID env @
              ''/datos/oportuno?locale=en'',
      headers = (''Accept'', ''application/json'') #
        (case BANXICO_TOKEN env of
           None \<Rightarrow> []
         | Some t \<Rightarrow> if t = [] then [] else [(''Bmx-Token'', t)])\<rparr>"

definition upstream_error :: "engine \<Rightarrow> int \<Rightarrow> exn" where
  "upstream_error E status =
     Exn ''Error'' (''BANXICO_UPSTREAM_'' @ number_to_string E (Fin (of_int status)))"

definition parse_error :: exn where
  "parse_error = Exn ''Error'' ''BANXICO_PARSE_ERROR''"

text \<open>What \<open>toISOString\<close> throws on an invalid date.\<close>

definition invalid_time :: exn where
  "invalid_time = Exn ''RangeError'' ''Invalid time value''"

section \<open>fetchBanxico\<close>

text \<open>
  \<open>fetchBanxico\<close> of \<open>src/fx-banco/src/index.js\<close>. It returns what the promise settles
  to (\<open>Inl\<close> the exception thrown) and the state it leaves. \<open>up\<close> is the answer of the
  upstream to the request.
\<close>

definition fetchBanxico :: "engine \<Rightarrow> env \<Rightarrow> upstream \<Rightarrow> state \<Rightarrow> (exn + cache_t) \<times> state" where
  "fetchBanxico E env up st =
     (let st1 = st\<lparr>requests := requests st @ [banxico_request env]\<rparr>
      in (case up of
           Rejected e \<Rightarrow> (Inl e, st1)
         | Response status b \<Rightarrow>
             if \<not> (200 \<le> status \<and> status \<le> 299) then (Inl (upstream_error E status), st1)
             else
               (case b of
                  NotJson e \<Rightarrow> (Inl e, st1)
                | Json j \<Rightarrow>
                    let serie = opt_chain (opt_chain (opt_chain j ''bmx'') ''series'') ''0'';
                        punto = opt_chain (opt_chain serie ''datos'') ''0''
                    in (case Number E (opt_chain punto ''dato'') of
                          Inl e \<Rightarrow> (Inl e, st1)
                        | Inr mid \<Rightarrow>
                            (let fecha = opt_chain punto ''fecha''
                             in if \<not> isFinite mid \<or> \<not> truthy fecha then (Inl parse_error, st1)
                                else
                                  (case to_string E fecha of
                                     Inl e \<Rightarrow> (Inl e, st1)
                                   | Inr f \<Rightarrow>
                                       (case Date_parse E (f @ ''T18:00:00Z'') of
                                          None \<Rightarrow> (Inl invalid_time, st1)
                                        | Some t \<Rightarrow>
                                            (let c = \<lparr>asOf = Some (toISOString t),
                                                      usd_mxn_mid = Some (string_to_number (toFixed4 E mid)),
                                                      stale = False,
                                                      raw = j\<rparr>
                                             in (Inr c, st1\<lparr>cache := c\<rparr>)))))))))"

text \<open>
  \<open>parseBanxicoDate\<close> of \<open>src/unnamed/part_001\<close>. \<open>d.includes\<close> exists on a string
  (a substring test) and on an array (a membership test); on any other value that is not
  falsy the call throws. \<open>d.split\<close> exists on a string only: on an array the array
  pattern has nothing to iterate, and the text of the error says both. The array pattern
  takes the first three parts, and a part that is missing prints as \<open>undefined\<close>.
\<close>

definition not_a_function :: "string \<Rightarrow> exn" where
  "not_a_function m = Exn ''TypeError'' (''d.'' @ m @ '' is not a function'')"

definition not_iterable :: exn where
  "not_iterable =
     Exn ''TypeError'' ''d.split is not a function or its return value is not iterable''"

fun includes_slash :: "jsval \<Rightarrow> exn + bool" where
  "includes_slash (Str s) = Inr (CHR ''/'' \<in> set s)"
| "includes_slash (Arr xs) = Inr (Str ''/'' \<in> set xs)"
| "includes_slash v = Inl (not_a_function ''includes'')"

fun split_on :: "char \<Rightarrow> string \<Rightarrow> string list" where
  "split_on c [] = [[]]"
| "split_on c (x # xs) =
     (if x = c then [] # split_on c xs
      else (case split_on c xs of [] \<Rightarrow> [[x]] | y # ys \<Rightarrow> (x # y) # ys))"

definition part :: "string list \<Rightarrow> nat \<Rightarrow> string" where
  "part ps i = (if i < length ps then ps ! i else ''undefined'')"

definition parseBanxicoDate :: "jsval \<Rightarrow> exn + jsval" where
  "parseBanxicoDate d =
     (if \<not> truthy d then Inr d
      else
        (case includes_slash d of
           Inl e \<Rightarrow> Inl e
         | Inr has \<Rightarrow>
             if \<not> has then Inr d
             else
               (case d of
                  Str s \<Rightarrow>
                    let ps = split_on (CHR ''/'') s
                    in Inr (Str (part ps 2 @ ''-'' @ part ps 1 @ ''-'' @ part ps 0))
                | _ \<Rightarrow> Inl not_iterable)))"

text \<open>\<open>fetchBanxico\<close> of \<open>src/unnamed/part_001\<close>: the date goes through \<open>parseBanxicoDate\<close>.\<close>

definition fetchBanxico_part_001 ::
  "engine \<Rightarrow> env \<Rightarrow> upstream \<Rightarrow> state \<Rightarrow> (exn + cache_t) \<times> state" where
  "fetchBanxico_part_001 E env up st =
     (let st1 = st\<lparr>requests := requests st @ [banxico_request env]\<rparr>
      in (case up of
           Rejected e \<Rightarrow> (Inl e, st1)
         | Response status b \<Rightarrow>
             if \<not> (200 \<le> status \<and> status \<le> 299) then (Inl (upstream_error E status), st1)
             else
               (case b of
                  NotJson e \<Rightarrow> (Inl e, st1)
                | Json j \<Rightarrow>
                    let serie = opt_chain (opt_chain (opt_chain j ''bmx'') ''series'') ''0'';
                        punto = opt_chain (opt_chain serie ''datos'') ''0''
                    in (case Number E (opt_chain punto ''dato'') of
                          Inl e \<Rightarrow> (Inl e, st1)
                        | Inr mid \<Rightarrow>
                            (case parseBanxicoDate (opt_chain punto ''fecha'') of
                               Inl e \<Rightarrow> (Inl e, st1)
                             | Inr fecha \<Rightarrow>
                                 if \<not> isFinite mid \<or> \<not> truthy fecha then (Inl parse_error, st1)
                                 else
                                   (case to_string E fecha of
                                      Inl e \<Rightarrow> (Inl e, st1)
                                    | Inr f \<Rightarrow>
                                        (case Date_parse E (f @ ''T18:00:00Z'') of
                                           None \<Rightarrow> (Inl invalid_time, st1)
                                         | Some t \<Rightarrow>
                                             (let c = \<lparr>asOf = Some (toISOString t),
                                                       usd_mxn_mid = Some (string_to_number (toFixed4 E mid)),
                                                       stale = False,
                                                       raw = j\<rparr>
                                              in (Inr c, st1\<lparr>cache := c\<rparr>)))))))))"

section \<open>The handlers\<close>

text \<open>
  The two servers differ in \<open>fetchBanxico\<close> only (and in a line of logging); their
  handlers are the same, so one model of each handler takes the server as a parameter.
\<close>

datatype version = Index_js | Part_001

fun fetch :: "version \<Rightarrow> engine \<Rightarrow> env \<Rightarrow> upstream \<Rightarrow> state \<Rightarrow> (exn + cache_t) \<times> state" where
  "fetch Index_js = fetchBanxico"
| "fetch Part_001 = fetchBanxico_part_001"

text \<open>
  \<open>isStale\<close>, with the reading of the clock as a parameter. The clock and a time value are
  integers far below \<open>2^53\<close>, so the subtraction of doubles is exact; a comparison with
  \<open>NaN\<close> (an \<open>asOf\<close> that does not parse) is false.
\<close>

definition isStale :: "engine \<Rightarrow> string option \<Rightarrow> int \<Rightarrow> bool" where
  "isStale E asOfISO now =
     (case asOfISO of
        None \<Rightarrow> True
      | Some s \<Rightarrow>
          if s = [] then True
          else (case Date_parse E s of None \<Rightarrow> False | Some asOfMs \<Rightarrow> 24 * 60 * 60 * 1000 < now - asOfMs))"

text \<open>\<open>!!cache.asOf\<close>.\<close>

definition present :: "string option \<Rightarrow> bool" where
  "present a = (case a of None \<Rightarrow> False | Some s \<Rightarrow> s \<noteq> [])"

record health =
  ok :: bool
  source_h :: string
  cached :: bool
  stale_h :: bool

text \<open>\<open>GET /healthz\<close>: the body sent, and the state left.\<close>

definition healthz :: "engine \<Rightarrow> env \<Rightarrow> int \<Rightarrow> state \<Rightarrow> health \<times> state" where
  "healthz E env now st =
     (\<lparr>ok = True,
       source_h = SOURCE env,
       cached = present (asOf (cache st)),
       stale_h = isStale E (asOf (cache st)) now\<rparr>, st)"

record quote_response =
  asOf_out :: "string option"
  usd_mxn_mid_out :: "jsnum option"
  buy_spread_bps :: jsnum
  sell_spread_bps :: jsnum
  source_out :: string
  stale_out :: bool

text \<open>A reply of \<open>GET /fx/usd-mxn/latest\<close>: status 200 with a quote, or 502 with \<open>error\<close>.\<close>

datatype reply = Json200 quote_response | Json502 string

text \<open>\<open>String(e.message || e)\<close> for a thrown \<open>Error\<close>: its message, or its name when the
  message is empty.\<close>

fun error_text :: "exn \<Rightarrow> string" where
  "error_text (Exn name message) = (if message \<noteq> [] then message else name)"

definition needsRefresh :: "engine \<Rightarrow> env \<Rightarrow> int \<Rightarrow> cache_t \<Rightarrow> bool" where
  "needsRefresh E env now c =
     (\<not> present (asOf c) \<or>
      (case Date_parse E (the (asOf c)) of
         None \<Rightarrow> False
       | Some asOfMs \<Rightarrow> js_gt (of_int (now - asOfMs)) (MAX_CACHE_MS env)))"

definition respond :: "engine \<Rightarrow> env \<Rightarrow> int \<Rightarrow> cache_t \<Rightarrow> reply" where
  "respond E env now c =
     Json200 \<lparr>asOf_out = asOf c,
              usd_mxn_mid_out = usd_mxn_mid c,
              buy_spread_bps = BUY_SPREAD_BPS env,
              sell_spread_bps = SELL_SPREAD_BPS env,
              source_out = SOURCE env,
              stale_out = isStale E (asOf c) now\<rparr>"

text \<open>
  \<open>GET /fx/usd-mxn/latest\<close>. \<open>now1\<close> is the clock when the age of the cache is tested,
  \<open>now2\<close> the clock when \<open>isStale\<close> runs, after the fetch if there was one.
\<close>

definition latest ::
  "version \<Rightarrow> engine \<Rightarrow> env \<Rightarrow> upstream \<Rightarrow> int \<Rightarrow> int \<Rightarrow> state \<Rightarrow> reply \<times> state" where
  "latest ver E env up now1 now2 st =
     (if needsRefresh E env now1 (cache st) then
        (case fetch ver E env up st of
           (Inl e, st') \<Rightarrow> (Json502 (error_text e), st')
         | (Inr c, st') \<Rightarrow> (respond E env now2 (cache st'), st'))
      else (respond E env now2 (cache st), st))"

text \<open>The states a server goes through, from the start of the process.\<close>

inductive reachable :: "version \<Rightarrow> engine \<Rightarrow> env \<Rightarrow> state \<Rightarrow> bool" for ver E env where
  start: "reachable ver E env \<lparr>cache = cache_init, requests = []\<rparr>"
| quote: "reachable ver E env st \<Longrightarrow> reachable ver E env (snd (latest ver E env up now1 now2 st))"
| health: "reachable ver E env st \<Longrightarrow> reachable ver E env (snd (healthz E env now st))"

text \<open>The cache is empty, or holds both fields of a quote.\<close>

definition empty_or_complete :: "cache_t \<Rightarrow> bool" where
  "empty_or_complete c =
     ((asOf c = None \<and> usd_mxn_mid c = None) \<or> (asOf c \<noteq> None \<and> usd_mxn_mid c \<noteq> None))"

text \<open>An engine for the closed examples: no date heuristics, and a number printer that the
  examples never reach.\<close>

definition strict_engine :: engine where
  "strict_engine = \<lparr>date_other = (\<lambda>s. None), num_str = (\<lambda>q. [])\<rparr>"

definition default_env :: env where
  "default_env =
     \<lparr>BANXICO_TOKEN = None, BUY_SPREAD_BPS_var = None, SELL_SPREAD_BPS_var = None,
      BANXICO_SERIES_ID = None, FX_SOURCE = None, MAX_CACHE_MS_var = None\<rparr>"

section \<open>The data point of a response\<close>

text \<open>
  The names \<open>punto\<close>, \<open>punto?.dato\<close> and \<open>punto?.fecha\<close> of \<open>fetchBanxico\<close>, as functions
  of the parsed body.
\<close>

definition punto_of :: "jsval \<Rightarrow> jsval" where
  "punto_of j =
     opt_chain (opt_chain (opt_chain (opt_chain (opt_chain j ''bmx'') ''series'') ''0'') ''datos'') ''0''"

definition dato_of :: "jsval \<Rightarrow> jsval" where
  "dato_of j = opt_chain (punto_of j) ''dato''"

definition fecha_of :: "jsval \<Rightarrow> jsval" where
  "fecha_of j = opt_chain (punto_of j) ''fecha''"

text \<open>
  Two names for the proofs: the state once the request is sent, and the lines that the two
  \<open>fetchBanxico\<close> share word for word, from the test of \<open>mid\<close> and \<open>fecha\<close> to the
  assignment of the cache.
\<close>

definition sent :: "env \<Rightarrow> state \<Rightarrow> state" where
  "sent env st = st\<lparr>requests := requests st @ [banxico_request env]\<rparr>"

definition check_and_store :: "engine \<Rightarrow> jsval \<Rightarrow> jsnum \<Rightarrow> jsval \<Rightarrow> state \<Rightarrow> (exn + cache_t) \<times> state" where
  "check_and_store E j mid fecha st1 =
     (if \<not> isFinite mid \<or> \<not> truthy fecha then (Inl parse_error, st1)
      else
        (case to_string E fecha of
           Inl e \<Rightarrow> (Inl e, st1)
         | Inr f \<Rightarrow>
             (case Date_parse E (f @ ''T18:00:00Z'') of
                None \<Rightarrow> (Inl invalid_time, st1)
              | Some t \<Rightarrow>
                  (let c = \<lparr>asOf = Some (toISOString t),
                            usd_mxn_mid = Some (string_to_number (toFixed4 E mid)),
                            stale = False,
                            raw = j\<rparr>
                   in (Inr c, st1\<lparr>cache := c\<rparr>)))))"

text \<open>The body \<open>{bmx: {series: [{datos: [{dato: d, fecha: f}]}]}}\<close>.\<close>

definition payload :: "jsval \<Rightarrow> jsval \<Rightarrow> jsval" where
  "payload d f =
     Obj [(''bmx'', Obj [(''series'', Arr [Obj [(''datos'', Arr [Obj [(''dato'', d), (''fecha'', f)]])]])])]"

text \<open>
  Rounding to four fractional digits, in the words of the specification: \<open>r\<close> is a
  decimal of four fractional digits, and no such decimal is nearer to \<open>q\<close>.
\<close>

definition rounded4 :: "rat \<Rightarrow> rat \<Rightarrow> bool" where
  "rounded4 q r = ((\<exists>n::int. r = of_int n / 10000) \<and> \<bar>r - q\<bar> \<le> 1 / 20000)"

text \<open>
  A date field that \<open>parseBanxicoDate\<close> returns as it is: a string with no slash, or a
  falsy value (absent, \<open>null\<close>, empty, \<open>0\<close>, \<open>false\<close>).
\<close>

definition plain_date :: "jsval \<Rightarrow> bool" where
  "plain_date d = (case d of Str s \<Rightarrow> CHR ''/'' \<notin> set s | _ \<Rightarrow> \<not> truthy d)"

text \<open>
  The date field that \<open>fetchBanxico\<close> reads from an upstream answer, when it gets that
  far: \<open>None\<close> when the promise rejects, the status is no success, the body does not parse
  or \<open>Number(dato)\<close> throws, all of which end the call before \<open>punto?.fecha\<close> is read.
\<close>

definition date_read :: "engine \<Rightarrow> upstream \<Rightarrow> jsval option" where
  "date_read E up =
     (case up of
        Rejected e \<Rightarrow> None
      | Response status b \<Rightarrow>
          if \<not> (200 \<le> status \<and> status \<le> 299) then None
          else
            (case b of
               NotJson e \<Rightarrow> None
             | Json j \<Rightarrow>
                 (case Number E (dato_of j) of Inl e \<Rightarrow> None | Inr mid \<Rightarrow> Some (fecha_of j))))"

text \<open>
  The constant \<open>fecha\<close> of each \<open>fetchBanxico\<close>: the date field itself in \<open>index.js\<close>,
  what \<open>parseBanxicoDate\<close> makes of it in \<open>part_001\<close>.
\<close>

definition fecha_in :: "version \<Rightarrow> jsval \<Rightarrow> exn + jsval" where
  "fecha_in ver j =
     (case ver of Index_js \<Rightarrow> Inr (fecha_of j) | Part_001 \<Rightarrow> parseBanxicoDate (fecha_of j))"

section \<open>Concrete states\<close>

text \<open>A cache that holds the quote of 1 September 2025, and the states around it.\<close>

definition held_example :: cache_t where
  "held_example =
     \<lparr>asOf = Some ''2025-09-01T18:00:00.000Z'',
      usd_mxn_mid = Some (Fin (2581857371376163 / 140737488355328)),
      stale = False, raw = Null\<rparr>"

definition populated :: state where
  "populated = \<lparr>cache = held_example, requests = []\<rparr>"

definition empty_state :: state where
  "empty_state = \<lparr>cache = cache_init, requests = []\<rparr>"

text \<open>
  The state of the server of \<open>part_001\<close> after one quote request that found the data
  point \<open>{dato: "18.3452", fecha: "01/09/2025"}\<close> upstream.
\<close>

definition refreshed :: state where
  "refreshed =
     \<lparr>cache = \<lparr>asOf = Some ''2025-09-01T18:00:00.000Z'',
               usd_mxn_mid = Some (Fin (2581857371376163 / 140737488355328)),
               stale = False,
               raw = payload (Str ''18.3452'') (Str ''01/09/2025'')\<rparr>,
      requests = [banxico_request default_env]\<rparr>"

text \<open>
  An engine whose date heuristics read \<open>01/09/2025T18:00:00Z\<close> as month, day and year:
  9 January 2025, 18:00 UTC.
\<close>

definition us_engine :: engine where
  "us_engine =
     \<lparr>date_other = (\<lambda>s. if s = ''01/09/2025T18:00:00Z'' then Some 1736445600000 else None),
      num_str = (\<lambda>q. [])\<rparr>"

section \<open>Facts about fetchBanxico\<close>

lemma fetchBanxico_requests:
  "requests (snd (fetchBanxico E env up st)) = requests st @ [banxico_request env]"
  unfolding fetchBanxico_def Let_def
  by (simp split: upstream.splits body.splits sum.splits option.splits)

lemma fetchBanxico_part_001_requests:
  "requests (snd (fetchBanxico_part_001 E env up st)) = requests st @ [banxico_request env]"
  unfolding fetchBanxico_part_001_def Let_def
  by (simp split: upstream.splits body.splits sum.splits option.splits)

lemma fetch_requests:
  "requests (snd (fetch ver E env up st)) = requests st @ [banxico_request env]"
  by (cases ver) (simp_all add: fetchBanxico_requests fetchBanxico_part_001_requests)

lemma fetchBanxico_Inl:
  "fst (fetchBanxico E env up st) = Inl e \<Longrightarrow> cache (snd (fetchBanxico E env up st)) = cache st"
  unfolding fetchBanxico_def Let_def
  by (auto split: upstream.splits body.splits sum.splits option.splits if_splits)

lemma fetchBanxico_part_001_Inl:
  "fst (fetchBanxico_part_001 E env up st) = Inl e \<Longrightarrow>
   cache (snd (fetchBanxico_part_001 E env up st)) = cache st"
  unfolding fetchBanxico_part_001_def Let_def
  by (auto split: upstream.splits body.splits sum.splits option.splits if_splits)

lemma fetch_Inl:
  "fst (fetch ver E env up st) = Inl e \<Longrightarrow> cache (snd (fetch ver E env up st)) = cache st"
  by (cases ver) (simp_all add: fetchBanxico_Inl fetchBanxico_part_001_Inl)

lemma fetchBanxico_Inr:
  "fst (fetchBanxico E env up st) = Inr c \<Longrightarrow>
   cache (snd (fetchBanxico E env up st)) = c \<and> asOf c \<noteq> None \<and> usd_mxn_mid c \<noteq> None"
  unfolding fetchBanxico_def Let_def
  by (auto split: upstream.splits body.splits sum.splits option.splits if_splits)

lemma fetchBanxico_part_001_Inr:
  "fst (fetchBanxico_part_001 E env up st) = Inr c \<Longrightarrow>
   cache (snd (fetchBanxico_part_001 E env up st)) = c \<and> asOf c \<noteq> None \<and> usd_mxn_mid c \<noteq> None"
  unfolding fetchBanxico_part_001_def Let_def
  by (auto split: upstream.splits body.splits sum.splits option.splits if_splits)

lemma fetch_Inr:
  "fst (fetch ver E env up st) = Inr c \<Longrightarrow>
   cache (snd (fetch ver E env up st)) = c \<and> asOf c \<noteq> None \<and> usd_mxn_mid c \<noteq> None"
  by (cases ver) (simp_all add: fetchBanxico_Inr fetchBanxico_part_001_Inr)

lemma fetch_status:
  "\<not> (200 \<le> status \<and> status \<le> 299) \<Longrightarrow>
   fst (fetch ver E env (Response status b) st) = Inl (upstream_error E status)"
  by (cases ver) (simp_all add: fetchBanxico_def fetchBanxico_part_001_def)

lemma number_to_string_status:
  "0 \<le> k \<Longrightarrow> k \<le> 9007199254740992 \<Longrightarrow> number_to_string E (Fin (of_int k)) = dec k"
  by (simp add: pos_to_string_def)

section \<open>Facts about the handlers\<close>

lemma latest_requests:
  "requests (snd (latest ver E env up now1 now2 st)) =
     (if needsRefresh E env now1 (cache st) then requests st @ [banxico_request env]
      else requests st)"
  using fetch_requests [of ver E env up st]
  by (auto simp: latest_def split: prod.splits sum.splits)

lemma latest_fail:
  "needsRefresh E env now1 (cache st) \<Longrightarrow> fst (fetch ver E env up st) = Inl e \<Longrightarrow>
   fst (latest ver E env up now1 now2 st) = Json502 (error_text e)"
  by (auto simp: latest_def split: prod.splits sum.splits)

lemma latest_cache_fail:
  "fst (fetch ver E env up st) = Inl e \<Longrightarrow>
   cache (snd (latest ver E env up now1 now2 st)) = cache st"
  using fetch_Inl [of ver E env up st e]
  by (auto simp: latest_def split: prod.splits sum.splits)

lemma parse_held:
  "Date_parse strict_engine ''2025-09-01T18:00:00.000Z'' = Some 1756749600000"
  by code_simp

lemma populated_503:
  "fst (fetch Index_js strict_engine default_env (Response 503 (NotJson (Exn [] []))) populated) =
     Inl (Exn ''Error'' ''BANXICO_UPSTREAM_503'')"
  by code_simp

lemma populated_needsRefresh:
  "needsRefresh strict_engine default_env 1756756800000 (cache populated)"
  by code_simp

section \<open>The claims\<close>

text \<open>
  C1. Whatever the cache holds, when the upstream fetch fails (the promise rejects, the
  status is not a success, the body does not parse, or the data point is rejected), the
  cache after \<open>fetchBanxico\<close> and after the handler of \<open>/fx/usd-mxn/latest\<close> is the cache
  before, field for field; and the handler, which runs the fetch when the cache needs a
  refresh, then answers with the failure (502 and the text of the exception), also when a
  quote was held.
\<close>

theorem failed_refresh_keeps_cache:
  assumes "fst (fetch ver E env up st) = Inl e"
  shows "cache (snd (fetch ver E env up st)) = cache st \<and>
         cache (snd (latest ver E env up now1 now2 st)) = cache st \<and>
         (needsRefresh E env now1 (cache st) \<longrightarrow>
            fst (latest ver E env up now1 now2 st) = Json502 (error_text e))"
  using fetch_Inl [OF assms] latest_cache_fail [OF assms] latest_fail [OF _ assms] by simp

theorem failed_refresh_keeps_cache_witness:
  "fst (fetch Index_js strict_engine default_env (Response 503 (NotJson (Exn [] []))) populated) =
     Inl (Exn ''Error'' ''BANXICO_UPSTREAM_503'') \<and>
   needsRefresh strict_engine default_env 1756756800000 (cache populated) \<and>
   cache (snd (latest Index_js strict_engine default_env (Response 503 (NotJson (Exn [] [])))
     1756756800000 1756756800005 populated)) = held_example \<and>
   fst (latest Index_js strict_engine default_env (Response 503 (NotJson (Exn [] [])))
     1756756800000 1756756800005 populated) = Json502 ''BANXICO_UPSTREAM_503''"
  using failed_refresh_keeps_cache [OF populated_503, of 1756756800000 1756756800005]
    populated_503 populated_needsRefresh
  by (simp add: populated_def)

lemma needsRefresh_iff:
  "needsRefresh E env now c \<longleftrightarrow>
     (\<not> present (asOf c) \<or>
      (\<exists>s t. asOf c = Some s \<and> Date_parse E s = Some t \<and>
         js_gt (of_int (now - t)) (MAX_CACHE_MS env)))"
  by (cases "asOf c") (auto simp: needsRefresh_def present_def split: option.splits)

lemma latest_fresh:
  "\<not> needsRefresh E env now1 (cache st) \<Longrightarrow>
   latest ver E env up now1 now2 st = (respond E env now2 (cache st), st)"
  by (simp add: latest_def)

lemma MAX_CACHE_MS_default:
  "MAX_CACHE_MS_var env = None \<Longrightarrow> MAX_CACHE_MS env = Fin 3600000"
  by (simp add: MAX_CACHE_MS_def env_number_def)

lemma populated_fresh:
  "\<not> needsRefresh strict_engine default_env 1756753200000 (cache populated)"
  by code_simp

lemma populated_aged:
  "needsRefresh strict_engine default_env 1756753200001 (cache populated)"
  by code_simp

lemma empty_needsRefresh: "needsRefresh E env now cache_init"
  by (simp add: needsRefresh_def present_def cache_init_def)

text \<open>
  C2. The handler of \<open>/fx/usd-mxn/latest\<close> sends a request upstream exactly when the
  cache needs a refresh, and it does so once; the cache needs a refresh exactly when
  \<open>asOf\<close> is absent or the age \<open>now - Date.parse(asOf)\<close> is greater than \<open>MAX_CACHE_MS\<close>
  (a strict comparison), which is 3600000 when the variable is not set. When no refresh is
  needed the state is unchanged and the reply is the held quote.
\<close>

theorem refresh_exactly_when_needed:
  "(requests (snd (latest ver E env up now1 now2 st)) =
      (if needsRefresh E env now1 (cache st) then requests st @ [banxico_request env]
       else requests st)) \<and>
   (needsRefresh E env now1 (cache st) \<longleftrightarrow>
      (\<not> present (asOf (cache st)) \<or>
       (\<exists>s t. asOf (cache st) = Some s \<and> Date_parse E s = Some t \<and>
          js_gt (of_int (now1 - t)) (MAX_CACHE_MS env)))) \<and>
   (\<forall>m x. js_gt x (Fin m) = (m < x)) \<and>
   (\<not> needsRefresh E env now1 (cache st) \<longrightarrow>
      latest ver E env up now1 now2 st = (respond E env now2 (cache st), st) \<and>
      (\<exists>flag. fst (latest ver E env up now1 now2 st) =
         Json200 \<lparr>asOf_out = asOf (cache st), usd_mxn_mid_out = usd_mxn_mid (cache st),
                  buy_spread_bps = BUY_SPREAD_BPS env, sell_spread_bps = SELL_SPREAD_BPS env,
                  source_out = SOURCE env, stale_out = flag\<rparr>)) \<and>
   (MAX_CACHE_MS_var env = None \<longrightarrow> MAX_CACHE_MS env = Fin 3600000)"
  using latest_requests [of ver E env up now1 now2 st] needsRefresh_iff [of E env now1 "cache st"]
    latest_fresh [of E env now1 st ver up now2] MAX_CACHE_MS_default [of env]
  by (simp add: respond_def)

theorem refresh_exactly_when_needed_witness:
  "\<not> needsRefresh strict_engine default_env 1756753200000 (cache populated) \<and>
   latest Index_js strict_engine default_env (Rejected (Exn [] [])) 1756753200000 1756753200000
     populated = (respond strict_engine default_env 1756753200000 held_example, populated) \<and>
   requests (snd (latest Index_js strict_engine default_env (Rejected (Exn [] []))
     1756753200000 1756753200000 populated)) = [] \<and>
   needsRefresh strict_engine default_env 1756753200001 (cache populated) \<and>
   requests (snd (latest Index_js strict_engine default_env (Rejected (Exn [] []))
     1756753200001 1756753200001 populated)) = [banxico_request default_env] \<and>
   MAX_CACHE_MS default_env = Fin 3600000"
proof -
  have d: "MAX_CACHE_MS_var default_env = None"
    by (simp add: default_env_def)
  have c: "cache populated = held_example" "requests populated = []"
    by (simp_all add: populated_def)
  show ?thesis
    using refresh_exactly_when_needed
        [of Index_js strict_engine default_env "Rejected (Exn [] [])" 1756753200000
          1756753200000 populated]
      refresh_exactly_when_needed
        [of Index_js strict_engine default_env "Rejected (Exn [] [])" 1756753200001
          1756753200001 populated]
      populated_fresh populated_aged d c
    by simp
qed

lemma isStale_iff:
  "Date_parse E s = Some t \<Longrightarrow> s \<noteq> [] \<Longrightarrow> isStale E (Some s) now = (86400000 < now - t)"
  by (simp add: isStale_def)

lemma needsRefresh_Fin:
  "Date_parse E s = Some t \<Longrightarrow> s \<noteq> [] \<Longrightarrow> asOf c = Some s \<Longrightarrow> MAX_CACHE_MS env = Fin m \<Longrightarrow>
   needsRefresh E env now c = (m < of_int (now - t))"
  by (simp add: needsRefresh_def present_def)

text \<open>
  C5. Both comparisons of an age are strict. For a held \<open>asOf\<close> that parses to the instant
  \<open>t\<close>: at the age of exactly 86400000 ms \<open>isStale\<close> is false, one millisecond later it
  is true, and in general it is true exactly when the age is greater than 86400000; the
  cache needs a refresh exactly when the age is greater than the interval, so not at an
  age equal to it.
\<close>

theorem thresholds_strict:
  assumes "Date_parse E s = Some t" and "s \<noteq> []"
  shows "isStale E (Some s) (t + 86400000) = False \<and>
         isStale E (Some s) (t + 86400001) = True \<and>
         (\<forall>now. isStale E (Some s) now = (86400000 < now - t)) \<and>
         (\<forall>now c m. asOf c = Some s \<longrightarrow> MAX_CACHE_MS env = Fin m \<longrightarrow>
            needsRefresh E env now c = (m < of_int (now - t))) \<and>
         (\<forall>c m. asOf c = Some s \<longrightarrow> MAX_CACHE_MS env = Fin (of_int m) \<longrightarrow>
            \<not> needsRefresh E env (t + m) c)"
  using isStale_iff [OF assms] needsRefresh_Fin [OF assms, of _ env]
  by simp

theorem thresholds_strict_witness:
  "Date_parse strict_engine ''2025-09-01T18:00:00.000Z'' = Some 1756749600000 \<and>
   isStale strict_engine (Some ''2025-09-01T18:00:00.000Z'') 1756836000000 = False \<and>
   isStale strict_engine (Some ''2025-09-01T18:00:00.000Z'') 1756836000001 = True \<and>
   \<not> needsRefresh strict_engine default_env 1756753200000 held_example"
proof -
  have a: "asOf held_example = Some ''2025-09-01T18:00:00.000Z''"
    by (simp add: held_example_def)
  have m: "MAX_CACHE_MS default_env = Fin (of_int 3600000)"
    by (simp add: MAX_CACHE_MS_def env_number_def default_env_def)
  have "\<not> needsRefresh strict_engine default_env (1756749600000 + 3600000) held_example"
    using thresholds_strict [OF parse_held, of default_env] a m by blast
  then show ?thesis
    using thresholds_strict [OF parse_held, of default_env] parse_held by simp
qed

lemma error_text_upstream:
  "error_text (upstream_error E status) =
     ''BANXICO_UPSTREAM_'' @ number_to_string E (Fin (of_int status))"
  by (simp add: upstream_error_def)

lemma dec_503: "dec 503 = ''503''"
  by code_simp

text \<open>
  C6. When the status of the upstream response is outside 200..299, \<open>fetchBanxico\<close>
  throws the error \<open>BANXICO_UPSTREAM_\<close> followed by the status (its decimal digits), and
  the handler, when it ran the fetch, answers 502 with that text as \<open>error\<close> (a reply is
  either a 200 or a 502: there is no 500); starting from the empty cache the handler always
  runs the fetch, so it answers the 502 and no quote.
\<close>

theorem upstream_status_gives_502:
  assumes "\<not> (200 \<le> status \<and> status \<le> 299)"
  shows "fst (fetch ver E env (Response status b) st) = Inl (upstream_error E status) \<and>
         upstream_error E status =
           Exn ''Error'' (''BANXICO_UPSTREAM_'' @ number_to_string E (Fin (of_int status))) \<and>
         (0 \<le> status \<and> status \<le> 9007199254740992 \<longrightarrow>
            number_to_string E (Fin (of_int status)) = dec status) \<and>
         (needsRefresh E env now1 (cache st) \<longrightarrow>
            latest ver E env (Response status b) now1 now2 st =
              (Json502 (''BANXICO_UPSTREAM_'' @ number_to_string E (Fin (of_int status))),
               st\<lparr>requests := requests st @ [banxico_request env]\<rparr>)) \<and>
         fst (latest ver E env (Response status b) now1 now2
                \<lparr>cache = cache_init, requests = rs\<rparr>) =
           Json502 (''BANXICO_UPSTREAM_'' @ number_to_string E (Fin (of_int status)))"
proof -
  have f: "fst (fetch ver E env (Response status b) st) = Inl (upstream_error E status)" for st
    using assms by (rule fetch_status)
  have s: "snd (fetch ver E env (Response status b) st) =
      st\<lparr>requests := requests st @ [banxico_request env]\<rparr>" for st
    using assms by (cases ver) (simp_all add: fetchBanxico_def fetchBanxico_part_001_def)
  have l: "needsRefresh E env now1 (cache st) \<Longrightarrow>
      latest ver E env (Response status b) now1 now2 st =
        (Json502 (''BANXICO_UPSTREAM_'' @ number_to_string E (Fin (of_int status))),
         st\<lparr>requests := requests st @ [banxico_request env]\<rparr>)" for st
    using f [of st] s [of st]
    by (cases "fetch ver E env (Response status b) st")
       (simp add: latest_def error_text_upstream)
  have e: "fst (latest ver E env (Response status b) now1 now2
                  \<lparr>cache = cache_init, requests = rs\<rparr>) =
      Json502 (''BANXICO_UPSTREAM_'' @ number_to_string E (Fin (of_int status)))"
    using l [of "\<lparr>cache = cache_init, requests = rs\<rparr>"]
    by (simp add: empty_needsRefresh)
  show ?thesis
    using f [of st] l [of st] e number_to_string_status [of status E]
    by (simp add: upstream_error_def)
qed

theorem upstream_status_gives_502_witness:
  "\<not> (200 \<le> (503::int) \<and> (503::int) \<le> 299) \<and>
   fst (fetch Part_001 strict_engine default_env (Response 503 (Json Null)) empty_state) =
     Inl (Exn ''Error'' ''BANXICO_UPSTREAM_503'') \<and>
   fst (latest Part_001 strict_engine default_env (Response 503 (Json Null)) 0 0 empty_state) =
     Json502 ''BANXICO_UPSTREAM_503''"
proof -
  have n: "\<not> (200 \<le> (503::int) \<and> (503::int) \<le> 299)"
    by simp
  show ?thesis
    using upstream_status_gives_502 [OF n, of Part_001 strict_engine default_env "Json Null"
        empty_state 0 0 "[]"] dec_503
    by (simp add: empty_state_def)
qed

lemma healthz_snd: "snd (healthz E env now st) = st"
  by (simp add: healthz_def)

lemma empty_or_complete_init: "empty_or_complete cache_init"
  by (simp add: empty_or_complete_def cache_init_def)

lemma latest_cache_cases:
  "cache (snd (latest ver E env up now1 now2 st)) = cache st \<or>
   (\<exists>c. fst (fetch ver E env up st) = Inr c \<and>
      cache (snd (latest ver E env up now1 now2 st)) = c \<and>
      asOf c \<noteq> None \<and> usd_mxn_mid c \<noteq> None)"
proof (cases "needsRefresh E env now1 (cache st)")
  case False
  then show ?thesis by (simp add: latest_def)
next
  case True
  show ?thesis
  proof (cases "fst (fetch ver E env up st)")
    case (Inl e)
    then show ?thesis using latest_cache_fail by blast
  next
    case (Inr c)
    from fetch_Inr [OF Inr] Inr True show ?thesis
      by (cases "fetch ver E env up st") (auto simp: latest_def)
  qed
qed

lemma latest_complete:
  "empty_or_complete (cache st) \<Longrightarrow>
   empty_or_complete (cache (snd (latest ver E env up now1 now2 st)))"
  using latest_cache_cases [of ver E env up now1 now2 st]
  by (auto simp: empty_or_complete_def)

lemma reachable_complete: "reachable ver E env st \<Longrightarrow> empty_or_complete (cache st)"
proof (induction rule: reachable.induct)
  case start
  show ?case by (simp add: empty_or_complete_init)
next
  case (quote st up now1 now2)
  from quote.IH show ?case by (rule latest_complete)
next
  case (health st now)
  then show ?case by (simp add: healthz_snd)
qed

text \<open>
  C7. In every state a server reaches from its start, the cache is empty (\<open>asOf\<close> and
  \<open>usd_mxn_mid\<close> both absent) or holds both; a quote request and a health check keep it
  so. A quote request leaves the cache as it was or replaces it by the whole record that a
  successful \<open>fetchBanxico\<close> returned, and a health check leaves it as it was.
\<close>

theorem cache_empty_or_complete:
  assumes "reachable ver E env st"
  shows "empty_or_complete (cache st) \<and>
         empty_or_complete (cache (snd (latest ver E env up now1 now2 st))) \<and>
         empty_or_complete (cache (snd (healthz E env now st))) \<and>
         (cache (snd (latest ver E env up now1 now2 st)) = cache st \<or>
          (\<exists>c. fst (fetch ver E env up st) = Inr c \<and>
             cache (snd (latest ver E env up now1 now2 st)) = c \<and>
             asOf c \<noteq> None \<and> usd_mxn_mid c \<noteq> None)) \<and>
         cache (snd (healthz E env now st)) = cache st"
  using reachable_complete [OF assms] latest_complete [OF reachable_complete [OF assms]]
    latest_cache_cases [of ver E env up now1 now2 st]
  by (simp add: healthz_snd)

text \<open>
  C9. The handler of \<open>/healthz\<close> leaves the state as it was: the cache (so \<open>asOf\<close>,
  \<open>usd_mxn_mid\<close> and \<open>raw\<close>) is unchanged and no request is sent upstream. Its body
  reports \<open>cached\<close> as whether an \<open>asOf\<close> is held, and \<open>stale\<close> as \<open>isStale\<close> of the held
  \<open>asOf\<close>: true for an empty cache, and for a held quote true exactly when its age is
  greater than 86400000 ms.
\<close>

theorem healthz_reads_only:
  "snd (healthz E env now st) = st \<and>
   cache (snd (healthz E env now st)) = cache st \<and>
   requests (snd (healthz E env now st)) = requests st \<and>
   cached (fst (healthz E env now st)) = present (asOf (cache st)) \<and>
   stale_h (fst (healthz E env now st)) = isStale E (asOf (cache st)) now \<and>
   (\<forall>s t. asOf (cache st) = Some s \<and> s \<noteq> [] \<and> Date_parse E s = Some t \<longrightarrow>
      cached (fst (healthz E env now st)) \<and>
      stale_h (fst (healthz E env now st)) = (86400000 < now - t)) \<and>
   (asOf (cache st) = None \<longrightarrow>
      \<not> cached (fst (healthz E env now st)) \<and> stale_h (fst (healthz E env now st)))"
  by (auto simp: healthz_def present_def isStale_def)

theorem healthz_reads_only_witness:
  "snd (healthz strict_engine default_env 1756836000001 populated) = populated \<and>
   cached (fst (healthz strict_engine default_env 1756836000001 populated)) \<and>
   stale_h (fst (healthz strict_engine default_env 1756836000001 populated)) \<and>
   \<not> cached (fst (healthz strict_engine default_env 0 empty_state)) \<and>
   stale_h (fst (healthz strict_engine default_env 0 empty_state))"
proof -
  have a: "asOf (cache populated) = Some ''2025-09-01T18:00:00.000Z''"
    by (simp add: populated_def held_example_def)
  have b: "asOf (cache empty_state) = None"
    by (simp add: empty_state_def cache_init_def)
  show ?thesis
    using healthz_reads_only [of strict_engine default_env 1756836000001 populated]
      healthz_reads_only [of strict_engine default_env 0 empty_state] a b parse_held
    by (simp add: present_def isStale_def)
qed

lemma fetchBanxico_ok:
  "200 \<le> status \<Longrightarrow> status \<le> 299 \<Longrightarrow>
   fetchBanxico E env (Response status (Json j)) st =
     (case Number E (dato_of j) of
        Inl e \<Rightarrow> (Inl e, sent env st)
      | Inr mid \<Rightarrow> check_and_store E j mid (fecha_of j) (sent env st))"
  by (simp add: fetchBanxico_def check_and_store_def sent_def dato_of_def fecha_of_def punto_of_def
      Let_def split: sum.splits option.splits)

lemma fetchBanxico_part_001_ok:
  "200 \<le> status \<Longrightarrow> status \<le> 299 \<Longrightarrow>
   fetchBanxico_part_001 E env (Response status (Json j)) st =
     (case Number E (dato_of j) of
        Inl e \<Rightarrow> (Inl e, sent env st)
      | Inr mid \<Rightarrow>
          (case parseBanxicoDate (fecha_of j) of
             Inl e \<Rightarrow> (Inl e, sent env st)
           | Inr fecha \<Rightarrow> check_and_store E j mid fecha (sent env st)))"
  by (simp add: fetchBanxico_part_001_def check_and_store_def sent_def dato_of_def fecha_of_def
      punto_of_def Let_def split: sum.splits option.splits)

lemma punto_payload: "punto_of (payload d f) = Obj [(''dato'', d), (''fecha'', f)]"
  by (simp add: punto_of_def payload_def)

lemma dato_payload: "dato_of (payload d f) = d"
  by (simp add: dato_of_def punto_payload)

lemma fecha_payload: "fecha_of (payload d f) = f"
  by (simp add: fecha_of_def punto_payload)

lemma number_18: "string_to_number ''18.3452'' = Fin (2581857371376163 / 140737488355328)"
  by code_simp

lemma round_18: "round_double (183452 / 10000) = Fin (2581857371376163 / 140737488355328)"
  by code_simp

lemma round_18_reduced:
  "round_double (45863 / 2500) = Fin (2581857371376163 / 140737488355328)"
  by code_simp

lemma fixed_18: "fixed4 E (2581857371376163 / 140737488355328) = ''18.3452''"
  by code_simp

lemma date_fix: "parseBanxicoDate (Str ''01/09/2025'') = Inr (Str ''2025-09-01'')"
  by code_simp

lemma iso_sep1: "iso_utc ''2025-09-01T18:00:00Z'' = Some 1756749600000"
  by code_simp

lemma iso_sep1_ms: "iso_utc ''2025-09-01T18:00:00.000Z'' = Some 1756749600000"
  by code_simp

lemma toISO_sep1: "toISOString 1756749600000 = ''2025-09-01T18:00:00.000Z''"
  by code_simp

lemma Date_parse_iso: "iso_utc s = Some t \<Longrightarrow> Date_parse E s = Some t"
  by (simp add: Date_parse_def)

lemma check_and_store_sep1:
  "check_and_store E j (Fin (2581857371376163 / 140737488355328)) (Str ''2025-09-01'') st1 =
     (Inr \<lparr>asOf = Some ''2025-09-01T18:00:00.000Z'',
           usd_mxn_mid = Some (Fin (2581857371376163 / 140737488355328)),
           stale = False, raw = j\<rparr>,
      st1\<lparr>cache := \<lparr>asOf = Some ''2025-09-01T18:00:00.000Z'',
           usd_mxn_mid = Some (Fin (2581857371376163 / 140737488355328)),
           stale = False, raw = j\<rparr>\<rparr>)"
proof -
  have p: "Date_parse E (''2025-09-01'' @ ''T18:00:00Z'') = Some 1756749600000"
    using Date_parse_iso [OF iso_sep1] by simp
  show ?thesis
    unfolding check_and_store_def
    by (simp add: p fixed_18 number_18 toISO_sep1 Let_def del: append.simps)
qed

lemma fetch_part_001_sep1:
  assumes "200 \<le> status" and "status \<le> 299"
    and "dato_of j = Str ''18.3452''" and "fecha_of j = Str ''01/09/2025''"
  shows "fetchBanxico_part_001 E env (Response status (Json j)) st =
     (Inr \<lparr>asOf = Some ''2025-09-01T18:00:00.000Z'',
           usd_mxn_mid = Some (Fin (2581857371376163 / 140737488355328)),
           stale = False, raw = j\<rparr>,
      (sent env st)\<lparr>cache := \<lparr>asOf = Some ''2025-09-01T18:00:00.000Z'',
           usd_mxn_mid = Some (Fin (2581857371376163 / 140737488355328)),
           stale = False, raw = j\<rparr>\<rparr>)"
  by (simp add: fetchBanxico_part_001_ok [OF assms(1,2)] assms(3,4) number_18 date_fix
      check_and_store_sep1)


lemma isStale_sep1:
  "isStale E (Some ''2025-09-01T18:00:00.000Z'') now = (86400000 < now - 1756749600000)"
  using Date_parse_iso [OF iso_sep1_ms, of E] by (simp add: isStale_def)

text \<open>
  The server of \<open>src/unnamed/part_001\<close> does what C3 says. When the cache needs a refresh
  and the upstream answers a success whose first data point has \<open>dato\<close> \<open>"18.3452"\<close>
  and \<open>fecha\<close> \<open>"01/09/2025"\<close>, its handler replies 200 with \<open>asOf\<close>
  \<open>"2025-09-01T18:00:00.000Z"\<close> (the instant 1756749600000), \<open>usd_mxn_mid\<close> the Number
  18.3452 (the double nearest to 183452/10000), and \<open>stale\<close> false when the clock is at
  most 24 hours after that instant. This holds for every engine: no step of it is left to
  the engine's date heuristics or to its number printer.
\<close>

theorem end_to_end_quote:
  assumes "200 \<le> status" and "status \<le> 299"
    and "dato_of j = Str ''18.3452''" and "fecha_of j = Str ''01/09/2025''"
    and "needsRefresh E env now1 (cache st)"
    and "now2 - 1756749600000 \<le> 86400000"
  shows "fst (latest Part_001 E env (Response status (Json j)) now1 now2 st) =
           Json200 \<lparr>asOf_out = Some ''2025-09-01T18:00:00.000Z'',
                    usd_mxn_mid_out = Some (round_double (183452 / 10000)),
                    buy_spread_bps = BUY_SPREAD_BPS env,
                    sell_spread_bps = SELL_SPREAD_BPS env,
                    source_out = SOURCE env,
                    stale_out = False\<rparr> \<and>
         string_to_number ''18.3452'' = round_double (183452 / 10000) \<and>
         iso_utc ''2025-09-01T18:00:00.000Z'' = Some 1756749600000 \<and>
         toISOString 1756749600000 = ''2025-09-01T18:00:00.000Z''"
  using assms(5,6)
  by (simp add: latest_def fetch_part_001_sep1 [OF assms(1-4)] respond_def isStale_sep1
      round_18_reduced number_18 iso_sep1_ms toISO_sep1)

theorem end_to_end_quote_witness:
  "fst (latest Part_001 strict_engine default_env
     (Response 200 (Json (payload (Str ''18.3452'') (Str ''01/09/2025''))))
     1756800000000 1756800000000 empty_state) =
   Json200 \<lparr>asOf_out = Some ''2025-09-01T18:00:00.000Z'',
            usd_mxn_mid_out = Some (round_double (183452 / 10000)),
            buy_spread_bps = Fin 25,
            sell_spread_bps = Fin 25,
            source_out = ''banxico_fix'',
            stale_out = False\<rparr>"
proof -
  have n: "needsRefresh strict_engine default_env 1756800000000 (cache empty_state)"
    by (simp add: empty_state_def empty_needsRefresh)
  have c: "BUY_SPREAD_BPS default_env = Fin 25" "SELL_SPREAD_BPS default_env = Fin 25"
    "SOURCE default_env = ''banxico_fix''"
    by (simp_all add: BUY_SPREAD_BPS_def SELL_SPREAD_BPS_def SOURCE_def default_env_def
        env_number_def env_or_def)
  show ?thesis
    using end_to_end_quote [of 200 "payload (Str ''18.3452'') (Str ''01/09/2025'')"
        strict_engine default_env 1756800000000 empty_state 1756800000000] n c
    by (simp add: dato_payload fecha_payload)
qed

lemma iso_slash: "iso_utc ''01/09/2025T18:00:00Z'' = None"
  by code_simp

lemma toISO_jan9: "toISOString 1736445600000 = ''2025-01-09T18:00:00.000Z''"
  by code_simp

lemma iso_jan9_ms: "iso_utc ''2025-01-09T18:00:00.000Z'' = Some 1736445600000"
  by code_simp

lemma check_and_store_slash:
  "check_and_store E j (Fin (2581857371376163 / 140737488355328)) (Str ''01/09/2025'') st1 =
     (case date_other E ''01/09/2025T18:00:00Z'' of
        None \<Rightarrow> (Inl invalid_time, st1)
      | Some t \<Rightarrow>
          if \<bar>t\<bar> \<le> 8640000000000000
          then (Inr \<lparr>asOf = Some (toISOString t),
                     usd_mxn_mid = Some (Fin (2581857371376163 / 140737488355328)),
                     stale = False, raw = j\<rparr>,
                st1\<lparr>cache := \<lparr>asOf = Some (toISOString t),
                     usd_mxn_mid = Some (Fin (2581857371376163 / 140737488355328)),
                     stale = False, raw = j\<rparr>\<rparr>)
          else (Inl invalid_time, st1))"
proof -
  have p: "Date_parse E (''01/09/2025'' @ ''T18:00:00Z'') =
      (case date_other E ''01/09/2025T18:00:00Z'' of None \<Rightarrow> None | Some t \<Rightarrow> TimeClip t)"
    using iso_slash by (simp add: Date_parse_def)
  show ?thesis
  proof (cases "date_other E ''01/09/2025T18:00:00Z''")
    case None
    then show ?thesis
      by (simp add: check_and_store_def p del: append.simps)
  next
    case (Some t)
    then show ?thesis
      by (simp add: check_and_store_def p fixed_18 number_18 TimeClip_def Let_def
          del: append.simps)
  qed
qed

lemma index_js_reply:
  assumes "200 \<le> status" and "status \<le> 299"
    and "dato_of j = Str ''18.3452''" and "fecha_of j = Str ''01/09/2025''"
    and "needsRefresh E env now1 (cache st)"
  shows "iso_utc ''01/09/2025T18:00:00Z'' = None \<and>
         fst (latest Index_js E env (Response status (Json j)) now1 now2 st) =
           (case date_other E ''01/09/2025T18:00:00Z'' of
              None \<Rightarrow> Json502 ''Invalid time value''
            | Some t \<Rightarrow>
                if \<bar>t\<bar> \<le> 8640000000000000
                then Json200 \<lparr>asOf_out = Some (toISOString t),
                              usd_mxn_mid_out = Some (round_double (183452 / 10000)),
                              buy_spread_bps = BUY_SPREAD_BPS env,
                              sell_spread_bps = SELL_SPREAD_BPS env,
                              source_out = SOURCE env,
                              stale_out = isStale E (Some (toISOString t)) now2\<rparr>
                else Json502 ''Invalid time value'')"
  using assms(5)
  by (simp add: iso_slash latest_def fetchBanxico_ok [OF assms(1,2)] assms(3,4) number_18
      check_and_store_slash respond_def invalid_time_def round_18_reduced
      split: option.splits)

text \<open>
  C3 fails in the server of \<open>src/fx-banco/src/index.js\<close>. With the data point
  \<open>{dato: "18.3452", fecha: "01/09/2025"}\<close> its \<open>fetchBanxico\<close> hands the date to
  \<open>new Date\<close> as \<open>01/09/2025T18:00:00Z\<close>, which is outside the date-time format, so the
  reply is what the engine's heuristics make of that string: 502 with
  \<open>Invalid time value\<close> when they reject it (or read a date out of range), and else a
  quote dated as they read it. The date is never rewritten to year, month and day, as
  \<open>parseBanxicoDate\<close> of \<open>part_001\<close> does.
\<close>

theorem index_js_end_to_end:
  assumes "200 \<le> status" and "status \<le> 299"
    and "dato_of j = Str ''18.3452''" and "fecha_of j = Str ''01/09/2025''"
    and "needsRefresh E env now1 (cache st)"
  shows "iso_utc ''01/09/2025T18:00:00Z'' = None \<and>
         fst (latest Index_js E env (Response status (Json j)) now1 now2 st) =
           (case date_other E ''01/09/2025T18:00:00Z'' of
              None \<Rightarrow> Json502 ''Invalid time value''
            | Some t \<Rightarrow>
                if \<bar>t\<bar> \<le> 8640000000000000
                then Json200 \<lparr>asOf_out = Some (toISOString t),
                              usd_mxn_mid_out = Some (round_double (183452 / 10000)),
                              buy_spread_bps = BUY_SPREAD_BPS env,
                              sell_spread_bps = SELL_SPREAD_BPS env,
                              source_out = SOURCE env,
                              stale_out = isStale E (Some (toISOString t)) now2\<rparr>
                else Json502 ''Invalid time value'')"
  using assms by (rule index_js_reply)

theorem index_js_end_to_end_witness:
  "fst (latest Index_js strict_engine default_env
     (Response 200 (Json (payload (Str ''18.3452'') (Str ''01/09/2025''))))
     1756800000000 1756800000000 empty_state) = Json502 ''Invalid time value''"
proof -
  have n: "needsRefresh strict_engine default_env 1756800000000 (cache empty_state)"
    by (simp add: empty_state_def empty_needsRefresh)
  show ?thesis
    using index_js_end_to_end [of 200 "payload (Str ''18.3452'') (Str ''01/09/2025'')"
        strict_engine default_env 1756800000000 empty_state 1756800000000] n
    by (simp add: dato_payload fecha_payload strict_engine_def)
qed

text \<open>
  On an engine that reads the string as month, day and year, the same request is answered
  with a quote dated 9 January 2025, which in September is stale.
\<close>

lemma index_js_month_first:
  "fst (latest Index_js us_engine default_env
     (Response 200 (Json (payload (Str ''18.3452'') (Str ''01/09/2025''))))
     1756800000000 1756800000000 empty_state) =
   Json200 \<lparr>asOf_out = Some ''2025-01-09T18:00:00.000Z'',
            usd_mxn_mid_out = Some (round_double (183452 / 10000)),
            buy_spread_bps = Fin 25,
            sell_spread_bps = Fin 25,
            source_out = ''banxico_fix'',
            stale_out = True\<rparr>"
proof -
  have n: "needsRefresh us_engine default_env 1756800000000 (cache empty_state)"
    by (simp add: empty_state_def empty_needsRefresh)
  have c: "BUY_SPREAD_BPS default_env = Fin 25" "SELL_SPREAD_BPS default_env = Fin 25"
    "SOURCE default_env = ''banxico_fix''"
    by (simp_all add: BUY_SPREAD_BPS_def SELL_SPREAD_BPS_def SOURCE_def default_env_def
        env_number_def env_or_def)
  have d: "date_other us_engine ''01/09/2025T18:00:00Z'' = Some 1736445600000"
    by (simp add: us_engine_def)
  have s: "isStale us_engine (Some ''2025-01-09T18:00:00.000Z'') 1756800000000"
    using Date_parse_iso [OF iso_jan9_ms, of us_engine] by (simp add: isStale_def)
  show ?thesis
    using index_js_reply [of 200 "payload (Str ''18.3452'') (Str ''01/09/2025'')"
        us_engine default_env 1756800000000 empty_state 1756800000000] n c s
    by (simp add: dato_payload fecha_payload d toISO_jan9)
qed

lemma parseBanxicoDate_plain: "plain_date d \<Longrightarrow> parseBanxicoDate d = Inr d"
  by (cases d) (simp_all add: plain_date_def parseBanxicoDate_def)

lemma fetch_versions_agree:
  assumes "case date_read E up of None \<Rightarrow> True | Some d \<Rightarrow> plain_date d"
  shows "fetchBanxico_part_001 E env up st = fetchBanxico E env up st"
proof (cases up)
  case (Rejected e)
  then show ?thesis by (simp add: fetchBanxico_def fetchBanxico_part_001_def Let_def)
next
  case (Response status b)
  show ?thesis
  proof (cases "200 \<le> status \<and> status \<le> 299")
    case False
    then show ?thesis
      using Response by (simp add: fetchBanxico_def fetchBanxico_part_001_def Let_def)
  next
    case True
    show ?thesis
    proof (cases b)
      case (NotJson e)
      with Response show ?thesis
        by (simp add: fetchBanxico_def fetchBanxico_part_001_def Let_def)
    next
      case (Json j)
      show ?thesis
      proof (cases "Number E (dato_of j)")
        case (Inl e)
        then show ?thesis
          using Response Json True by (simp add: fetchBanxico_ok fetchBanxico_part_001_ok)
      next
        case (Inr mid)
        with assms Response Json True have "plain_date (fecha_of j)"
          by (simp add: date_read_def)
        then show ?thesis
          using Response Json True Inr
          by (simp add: fetchBanxico_ok fetchBanxico_part_001_ok parseBanxicoDate_plain)
      qed
    qed
  qed
qed

lemma latest_versions_agree:
  "fetch Part_001 E env up st = fetch Index_js E env up st \<Longrightarrow>
   latest Part_001 E env up now1 now2 st = latest Index_js E env up now1 now2 st"
  by (simp add: latest_def)

text \<open>
  C10. The two \<open>fetchBanxico\<close> return the same result and leave the same state, and so
  do the two handlers, for every upstream answer whose date field is a string with no
  slash (or is absent or otherwise falsy), and for every answer that ends the call before
  the date is read: \<open>parseBanxicoDate\<close> returns such a date as it is. So whenever the date
  field is a string and the two differ, in \<open>fetchBanxico\<close> or in the handler, that string
  has a slash.
\<close>

theorem versions_agree_on_plain_dates:
  "((case date_read E up of None \<Rightarrow> True | Some d \<Rightarrow> plain_date d) \<longrightarrow>
      fetch Part_001 E env up st = fetch Index_js E env up st \<and>
      latest Part_001 E env up now1 now2 st = latest Index_js E env up now1 now2 st) \<and>
   (\<forall>s. date_read E up = Some (Str s) \<and>
        fetch Part_001 E env up st \<noteq> fetch Index_js E env up st \<longrightarrow> CHR ''/'' \<in> set s) \<and>
   (\<forall>s. date_read E up = Some (Str s) \<and>
        latest Part_001 E env up now1 now2 st \<noteq> latest Index_js E env up now1 now2 st \<longrightarrow>
        CHR ''/'' \<in> set s) \<and>
   (\<forall>s. CHR ''/'' \<notin> set s \<longrightarrow> parseBanxicoDate (Str s) = Inr (Str s))"
proof -
  have a: "(case date_read E up of None \<Rightarrow> True | Some d \<Rightarrow> plain_date d) \<Longrightarrow>
      fetch Part_001 E env up st = fetch Index_js E env up st"
    using fetch_versions_agree [of E up env st] by simp
  have b: "CHR ''/'' \<in> set s"
    if "date_read E up = Some (Str s)"
      and "fetch Part_001 E env up st \<noteq> fetch Index_js E env up st" for s
  proof (rule ccontr)
    assume "CHR ''/'' \<notin> set s"
    with that(1) have "case date_read E up of None \<Rightarrow> True | Some d \<Rightarrow> plain_date d"
      by (simp add: plain_date_def)
    from a [OF this] that(2) show False by simp
  qed
  have c: "CHR ''/'' \<in> set s"
    if "date_read E up = Some (Str s)"
      and "latest Part_001 E env up now1 now2 st \<noteq> latest Index_js E env up now1 now2 st" for s
    using b [OF that(1)] that(2) latest_versions_agree [of E env up st now1 now2] by blast
  have d: "CHR ''/'' \<notin> set s \<Longrightarrow> parseBanxicoDate (Str s) = Inr (Str s)" for s
    by (simp add: parseBanxicoDate_plain plain_date_def)
  show ?thesis
    using a latest_versions_agree [of E env up st now1 now2] b c d by blast
qed

lemma number_18_response:
  "date_read E (Response 200 (Json (payload (Str ''18.3452'') f))) = Some f"
  by (simp add: date_read_def dato_payload fecha_payload)

lemma versions_differ_sep1:
  "fetch Part_001 strict_engine default_env
     (Response 200 (Json (payload (Str ''18.3452'') (Str ''01/09/2025'')))) empty_state \<noteq>
   fetch Index_js strict_engine default_env
     (Response 200 (Json (payload (Str ''18.3452'') (Str ''01/09/2025'')))) empty_state"
proof -
  have i: "fst (fetchBanxico strict_engine default_env
     (Response 200 (Json (payload (Str ''18.3452'') (Str ''01/09/2025'')))) empty_state) =
     Inl invalid_time"
    by (simp add: fetchBanxico_ok dato_payload fecha_payload number_18 check_and_store_slash
        strict_engine_def)
  have p: "fst (fetchBanxico_part_001 strict_engine default_env
     (Response 200 (Json (payload (Str ''18.3452'') (Str ''01/09/2025'')))) empty_state) =
     Inr \<lparr>asOf = Some ''2025-09-01T18:00:00.000Z'',
          usd_mxn_mid = Some (Fin (2581857371376163 / 140737488355328)),
          stale = False, raw = payload (Str ''18.3452'') (Str ''01/09/2025'')\<rparr>"
    by (simp add: fetch_part_001_sep1 dato_payload fecha_payload)
  show ?thesis
    using i p by (metis Inl_Inr_False fetch.simps(1) fetch.simps(2))
qed

theorem versions_agree_on_plain_dates_witness:
  "date_read strict_engine (Response 200 (Json (payload (Str ''18.3452'') (Str ''2025-09-01'')))) =
     Some (Str ''2025-09-01'') \<and>
   fetch Part_001 strict_engine default_env
     (Response 200 (Json (payload (Str ''18.3452'') (Str ''2025-09-01'')))) empty_state =
   fetch Index_js strict_engine default_env
     (Response 200 (Json (payload (Str ''18.3452'') (Str ''2025-09-01'')))) empty_state \<and>
   date_read strict_engine (Response 503 (Json (payload (Str ''18.3452'') (Str ''01/09/2025'')))) =
     None \<and>
   latest Part_001 strict_engine default_env
     (Response 503 (Json (payload (Str ''18.3452'') (Str ''01/09/2025'')))) 0 0 empty_state =
   latest Index_js strict_engine default_env
     (Response 503 (Json (payload (Str ''18.3452'') (Str ''01/09/2025'')))) 0 0 empty_state \<and>
   date_read strict_engine (Response 200 (Json (payload (Str ''18.3452'') (Str ''01/09/2025'')))) =
     Some (Str ''01/09/2025'') \<and>
   fetch Part_001 strict_engine default_env
     (Response 200 (Json (payload (Str ''18.3452'') (Str ''01/09/2025'')))) empty_state \<noteq>
   fetch Index_js strict_engine default_env
     (Response 200 (Json (payload (Str ''18.3452'') (Str ''01/09/2025'')))) empty_state \<and>
   CHR ''/'' \<in> set ''01/09/2025''"
proof -
  have a: "date_read strict_engine
      (Response 503 (Json (payload (Str ''18.3452'') (Str ''01/09/2025'')))) = None"
    by (simp add: date_read_def)
  have p: "plain_date (Str ''2025-09-01'')"
    by (simp add: plain_date_def)
  show ?thesis
    using versions_agree_on_plain_dates [of strict_engine
        "Response 200 (Json (payload (Str ''18.3452'') (Str ''2025-09-01'')))"
        default_env empty_state 0 0]
      versions_agree_on_plain_dates [of strict_engine
        "Response 503 (Json (payload (Str ''18.3452'') (Str ''01/09/2025'')))"
        default_env empty_state 0 0]
      versions_agree_on_plain_dates [of strict_engine
        "Response 200 (Json (payload (Str ''18.3452'') (Str ''01/09/2025'')))"
        default_env empty_state 0 0]
      versions_differ_sep1 a p
    by (simp add: number_18_response)
qed

lemma iso_2025: "iso_utc ''2025T18:00:00Z'' = Some 1735754400000"
  by code_simp

lemma toISO_2025: "toISOString 1735754400000 = ''2025-01-01T18:00:00.000Z''"
  by code_simp

lemma to_string_2025: "to_string E (Num (Fin 2025)) = Inr ''2025''"
  by code_simp

text \<open>
  A date field that is not a string is another matter: with the number 2025, \<open>index.js\<close>
  builds the string \<open>2025T18:00:00Z\<close> and returns a quote, and \<open>part_001\<close> throws in
  \<open>parseBanxicoDate\<close>, a number having no method \<open>includes\<close>.
\<close>

lemma versions_differ_on_number_date:
  "fecha_of (payload (Str ''18.3452'') (Num (Fin 2025))) = Num (Fin 2025) \<and>
   fst (fetch Index_js strict_engine default_env
     (Response 200 (Json (payload (Str ''18.3452'') (Num (Fin 2025))))) empty_state) =
     Inr \<lparr>asOf = Some ''2025-01-01T18:00:00.000Z'',
          usd_mxn_mid = Some (Fin (2581857371376163 / 140737488355328)),
          stale = False, raw = payload (Str ''18.3452'') (Num (Fin 2025))\<rparr> \<and>
   fst (fetch Part_001 strict_engine default_env
     (Response 200 (Json (payload (Str ''18.3452'') (Num (Fin 2025))))) empty_state) =
     Inl (Exn ''TypeError'' ''d.includes is not a function'')"
proof -
  have p: "Date_parse strict_engine (''2025'' @ ''T18:00:00Z'') = Some 1735754400000"
    using Date_parse_iso [OF iso_2025] by simp
  have a: "fst (fetchBanxico strict_engine default_env
     (Response 200 (Json (payload (Str ''18.3452'') (Num (Fin 2025))))) empty_state) =
     Inr \<lparr>asOf = Some ''2025-01-01T18:00:00.000Z'',
          usd_mxn_mid = Some (Fin (2581857371376163 / 140737488355328)),
          stale = False, raw = payload (Str ''18.3452'') (Num (Fin 2025))\<rparr>"
    by (simp add: fetchBanxico_ok dato_payload fecha_payload number_18 check_and_store_def
        to_string_2025 p toISO_2025 fixed_18 Let_def del: append.simps to_string.simps)
  have b: "fst (fetchBanxico_part_001 strict_engine default_env
     (Response 200 (Json (payload (Str ''18.3452'') (Num (Fin 2025))))) empty_state) =
     Inl (Exn ''TypeError'' ''d.includes is not a function'')"
    by (simp add: fetchBanxico_part_001_ok dato_payload fecha_payload number_18
        parseBanxicoDate_def not_a_function_def)
  show ?thesis
    using a b by (simp add: fecha_payload)
qed

lemma parse_error_distinct:
  "not_primitive \<noteq> parse_error" "invalid_time \<noteq> parse_error"
  "not_a_function m \<noteq> parse_error" "not_iterable \<noteq> parse_error"
  by (simp_all add: not_primitive_def parse_error_def invalid_time_def not_a_function_def
      not_iterable_def)

lemma to_string_exn: "to_string E v = Inl e \<Longrightarrow> e = not_primitive"
  and join_elems_exn: "join_elems E vs = Inl e \<Longrightarrow> e = not_primitive"
  and elem_string_exn: "elem_string E v = Inl e \<Longrightarrow> e = not_primitive"
  by (induction E v and E vs and E v rule: to_string_join_elems_elem_string.induct)
     (auto split: if_splits sum.splits)

lemma Number_exn: "Number E v = Inl e \<Longrightarrow> e = not_primitive"
  by (cases v) (auto split: sum.splits if_splits dest: join_elems_exn)

lemma parseBanxicoDate_exn: "parseBanxicoDate d = Inl e \<Longrightarrow> e \<noteq> parse_error"
  using parse_error_distinct
  by (cases d) (auto simp: parseBanxicoDate_def Let_def split: if_splits)

lemma parseBanxicoDate_truthy: "parseBanxicoDate d = Inr f \<Longrightarrow> truthy f = truthy d"
  by (cases d) (auto simp: parseBanxicoDate_def Let_def split: if_splits)

lemma check_and_store_parse_error:
  "fst (check_and_store E j mid fecha st1) = Inl parse_error \<longleftrightarrow> (\<not> isFinite mid \<or> \<not> truthy fecha)"
  using parse_error_distinct
  by (auto simp: check_and_store_def Let_def split: sum.splits option.splits dest: to_string_exn)

lemma check_and_store_Inr:
  "fst (check_and_store E j mid fecha st1) = Inr c \<Longrightarrow>
   \<exists>q t. mid = Fin q \<and>
     c = \<lparr>asOf = Some (toISOString t), usd_mxn_mid = Some (string_to_number (fixed4 E q)),
          stale = False, raw = j\<rparr>"
  by (cases mid) (auto simp: check_and_store_def Let_def split: sum.splits option.splits if_splits)

lemma fetchBanxico_parse_error:
  assumes "200 \<le> status" and "status \<le> 299"
  shows "fst (fetchBanxico E env (Response status (Json j)) st) = Inl parse_error \<longleftrightarrow>
     (\<exists>mid. Number E (dato_of j) = Inr mid \<and> (\<not> isFinite mid \<or> \<not> truthy (fecha_of j)))"
proof (cases "Number E (dato_of j)")
  case (Inl e)
  then show ?thesis
    using Number_exn [OF Inl] parse_error_distinct
    by (simp add: fetchBanxico_ok [OF assms])
next
  case (Inr mid)
  then show ?thesis
    by (simp add: fetchBanxico_ok [OF assms] check_and_store_parse_error)
qed

lemma fetchBanxico_part_001_parse_error:
  assumes "200 \<le> status" and "status \<le> 299"
  shows "fst (fetchBanxico_part_001 E env (Response status (Json j)) st) = Inl parse_error \<longleftrightarrow>
     (\<exists>mid f. Number E (dato_of j) = Inr mid \<and> parseBanxicoDate (fecha_of j) = Inr f \<and>
        (\<not> isFinite mid \<or> \<not> truthy (fecha_of j)))"
proof (cases "Number E (dato_of j)")
  case (Inl e)
  then show ?thesis
    using Number_exn [OF Inl] parse_error_distinct
    by (simp add: fetchBanxico_part_001_ok [OF assms])
next
  case (Inr mid)
  show ?thesis
  proof (cases "parseBanxicoDate (fecha_of j)")
    case (Inl e)
    then show ?thesis
      using parseBanxicoDate_exn [OF Inl] parse_error_distinct Inr
      by (auto simp: fetchBanxico_part_001_ok [OF assms])
  next
    case (Inr f)
    then show ?thesis
      using \<open>Number E (dato_of j) = Inr mid\<close> parseBanxicoDate_truthy [OF Inr]
      by (simp add: fetchBanxico_part_001_ok [OF assms] check_and_store_parse_error)
  qed
qed

lemma fetch_Inr_whole:
  assumes "200 \<le> status" and "status \<le> 299"
    and "fst (fetch ver E env (Response status (Json j)) st) = Inr c"
  shows "\<exists>q t. Number E (dato_of j) = Inr (Fin q) \<and>
     c = \<lparr>asOf = Some (toISOString t), usd_mxn_mid = Some (string_to_number (fixed4 E q)),
          stale = False, raw = j\<rparr>"
proof -
  have "\<exists>mid f. Number E (dato_of j) = Inr mid \<and>
      fst (check_and_store E j mid f (sent env st)) = Inr c"
  proof (cases ver)
    case Index_js
    with assms(3) show ?thesis
      by (cases "Number E (dato_of j)") (auto simp: fetchBanxico_ok [OF assms(1,2)])
  next
    case Part_001
    with assms(3) show ?thesis
      by (cases "Number E (dato_of j)"; cases "parseBanxicoDate (fecha_of j)")
         (auto simp: fetchBanxico_part_001_ok [OF assms(1,2)])
  qed
  then obtain mid f where n: "Number E (dato_of j) = Inr mid"
    and s: "fst (check_and_store E j mid f (sent env st)) = Inr c"
    by blast
  from check_and_store_Inr [OF s] n show ?thesis
    by blast
qed

lemma fetch_ok:
  assumes "200 \<le> status" and "status \<le> 299"
  shows "fetch ver E env (Response status (Json j)) st =
     (case Number E (dato_of j) of
        Inl e \<Rightarrow> (Inl e, sent env st)
      | Inr mid \<Rightarrow>
          (case fecha_in ver j of
             Inl e \<Rightarrow> (Inl e, sent env st)
           | Inr d \<Rightarrow> check_and_store E j mid d (sent env st)))"
  by (cases ver)
     (simp_all add: fetchBanxico_ok [OF assms] fetchBanxico_part_001_ok [OF assms] fecha_in_def
       split: sum.splits)

lemma check_and_store_invalid:
  "isFinite mid \<Longrightarrow> truthy d \<Longrightarrow> to_string E d = Inr f \<Longrightarrow>
   Date_parse E (f @ ''T18:00:00Z'') = None \<Longrightarrow>
   check_and_store E j mid d st1 = (Inl invalid_time, st1)"
  by (simp add: check_and_store_def del: append.simps)

lemma check_and_store_Inr_date:
  "fst (check_and_store E j mid d st1) = Inr c \<Longrightarrow>
   \<exists>q f t. mid = Fin q \<and> truthy d \<and> to_string E d = Inr f \<and>
     Date_parse E (f @ ''T18:00:00Z'') = Some t \<and>
     c = \<lparr>asOf = Some (toISOString t), usd_mxn_mid = Some (string_to_number (fixed4 E q)),
          stale = False, raw = j\<rparr>"
  by (cases mid)
     (auto simp: check_and_store_def Let_def split: sum.splits option.splits if_splits
       simp del: append.simps)

lemma fetch_Inr_date:
  assumes "200 \<le> status" and "status \<le> 299"
    and "fst (fetch ver E env (Response status (Json j)) st) = Inr c"
  shows "\<exists>q d f t. Number E (dato_of j) = Inr (Fin q) \<and> fecha_in ver j = Inr d \<and> truthy d \<and>
     to_string E d = Inr f \<and> Date_parse E (f @ ''T18:00:00Z'') = Some t \<and>
     c = \<lparr>asOf = Some (toISOString t), usd_mxn_mid = Some (string_to_number (fixed4 E q)),
          stale = False, raw = j\<rparr>"
proof -
  from assms(3) obtain mid d where n: "Number E (dato_of j) = Inr mid"
    and f: "fecha_in ver j = Inr d"
    and s: "fst (check_and_store E j mid d (sent env st)) = Inr c"
    by (cases "Number E (dato_of j)"; cases "fecha_in ver j")
       (auto simp: fetch_ok [OF assms(1,2)])
  from check_and_store_Inr_date [OF s] n f show ?thesis
    by blast
qed

lemma fetch_invalid_date:
  assumes "200 \<le> status" and "status \<le> 299"
    and "Number E (dato_of j) = Inr mid" and "isFinite mid"
    and "fecha_in ver j = Inr d" and "truthy d" and "to_string E d = Inr f"
    and "Date_parse E (f @ ''T18:00:00Z'') = None"
  shows "fetch ver E env (Response status (Json j)) st = (Inl invalid_time, sent env st)"
  by (simp add: fetch_ok [OF assms(1,2)] assms(3,5)
      check_and_store_invalid [OF assms(4,6,7,8)])

lemma number_minus_5: "string_to_number ''-5'' = Fin (- 5)"
  by code_simp

lemma fixed_minus_5: "string_to_number (fixed4 E (- 5)) = Fin (- 5)"
  by code_simp

lemma date_13_45: "Date_parse strict_engine (''2025-13-45'' @ ''T18:00:00Z'') = None"
  by code_simp

text \<open>
  C4 (amended). On a success response with a JSON body, \<open>fetchBanxico\<close> throws
  \<open>BANXICO_PARSE_ERROR\<close> exactly when \<open>Number(dato)\<close> is a number that is not finite
  (\<open>NaN\<close> or an infinity) or the date field is falsy (absent, \<open>null\<close>, empty), provided
  the conversions before the test do not throw themselves (\<open>Number\<close>, and in \<open>part_001\<close>
  \<open>parseBanxicoDate\<close>). So a \<open>dato\<close> of \<open>"NaN"\<close> and a missing \<open>fecha\<close> give that
  error; a finite rate passes the test whatever its sign. Every Quote returned has all its
  fields: \<open>asOf\<close> the ISO text of the instant that the date parsed to, \<open>usd_mxn_mid\<close> read
  back from \<open>toFixed(4)\<close> of a finite rate. A date that is present and converts to a
  string that does not parse gives no Quote and leaves the cache as it was: the call
  throws the \<open>RangeError\<close> \<open>Invalid time value\<close> of \<open>toISOString\<close>, which is not
  \<open>BANXICO_PARSE_ERROR\<close>.
\<close>

theorem parse_error_exactly:
  assumes "200 \<le> status" and "status \<le> 299"
  shows "(fst (fetch ver E env (Response status (Json j)) st) = Inl parse_error \<longleftrightarrow>
            (\<exists>mid. Number E (dato_of j) = Inr mid \<and>
               (ver = Part_001 \<longrightarrow> (\<exists>f. parseBanxicoDate (fecha_of j) = Inr f)) \<and>
               (\<not> isFinite mid \<or> \<not> truthy (fecha_of j)))) \<and>
         (dato_of j = Str ''NaN'' \<and> plain_date (fecha_of j) \<longrightarrow>
            fst (fetch ver E env (Response status (Json j)) st) = Inl parse_error) \<and>
         ((\<exists>mid. Number E (dato_of j) = Inr mid) \<and> \<not> truthy (fecha_of j) \<longrightarrow>
            fst (fetch ver E env (Response status (Json j)) st) = Inl parse_error) \<and>
         (\<forall>c. fst (fetch ver E env (Response status (Json j)) st) = Inr c \<longrightarrow>
            (\<exists>q d f t. Number E (dato_of j) = Inr (Fin q) \<and> fecha_in ver j = Inr d \<and>
               truthy d \<and> to_string E d = Inr f \<and>
               Date_parse E (f @ ''T18:00:00Z'') = Some t \<and>
               c = \<lparr>asOf = Some (toISOString t),
                    usd_mxn_mid = Some (string_to_number (fixed4 E q)),
                    stale = False, raw = j\<rparr>)) \<and>
         (\<forall>mid d f. Number E (dato_of j) = Inr mid \<and> isFinite mid \<and>
              fecha_in ver j = Inr d \<and> truthy d \<and> to_string E d = Inr f \<and>
              Date_parse E (f @ ''T18:00:00Z'') = None \<longrightarrow>
            fetch ver E env (Response status (Json j)) st = (Inl invalid_time, sent env st) \<and>
            cache (sent env st) = cache st) \<and>
         invalid_time = Exn ''RangeError'' ''Invalid time value'' \<and>
         invalid_time \<noteq> parse_error"
proof -
  have nan: "string_to_number ''NaN'' = NaN"
    by code_simp
  have iff: "fst (fetch ver E env (Response status (Json j)) st) = Inl parse_error \<longleftrightarrow>
      (\<exists>mid. Number E (dato_of j) = Inr mid \<and>
         (ver = Part_001 \<longrightarrow> (\<exists>f. parseBanxicoDate (fecha_of j) = Inr f)) \<and>
         (\<not> isFinite mid \<or> \<not> truthy (fecha_of j)))"
    by (cases ver)
       (auto simp: fetchBanxico_parse_error [OF assms] fetchBanxico_part_001_parse_error [OF assms])
  have a: "dato_of j = Str ''NaN'' \<and> plain_date (fecha_of j) \<longrightarrow>
      fst (fetch ver E env (Response status (Json j)) st) = Inl parse_error"
    unfolding iff using parseBanxicoDate_plain [of "fecha_of j"] by (auto simp: nan)
  have b: "(\<exists>mid. Number E (dato_of j) = Inr mid) \<and> \<not> truthy (fecha_of j) \<longrightarrow>
      fst (fetch ver E env (Response status (Json j)) st) = Inl parse_error"
    unfolding iff by (auto simp: parseBanxicoDate_def)
  have c: "cache (sent env st) = cache st"
    by (simp add: sent_def)
  have d: "invalid_time = Exn ''RangeError'' ''Invalid time value''"
    by (simp add: invalid_time_def)
  have e: "\<forall>c. fst (fetch ver E env (Response status (Json j)) st) = Inr c \<longrightarrow>
      (\<exists>q d f t. Number E (dato_of j) = Inr (Fin q) \<and> fecha_in ver j = Inr d \<and>
         truthy d \<and> to_string E d = Inr f \<and>
         Date_parse E (f @ ''T18:00:00Z'') = Some t \<and>
         c = \<lparr>asOf = Some (toISOString t),
              usd_mxn_mid = Some (string_to_number (fixed4 E q)),
              stale = False, raw = j\<rparr>)"
    using fetch_Inr_date [OF assms] by blast
  have g: "\<forall>mid d f. Number E (dato_of j) = Inr mid \<and> isFinite mid \<and>
        fecha_in ver j = Inr d \<and> truthy d \<and> to_string E d = Inr f \<and>
        Date_parse E (f @ ''T18:00:00Z'') = None \<longrightarrow>
      fetch ver E env (Response status (Json j)) st = (Inl invalid_time, sent env st) \<and>
      cache (sent env st) = cache st"
    using fetch_invalid_date [OF assms] c by blast
  show ?thesis
    by (intro conjI iff a b e g d parse_error_distinct(2))
qed

theorem parse_error_exactly_witness:
  "fst (fetch Index_js strict_engine default_env
     (Response 200 (Json (payload (Str ''NaN'') (Str ''2025-09-01'')))) empty_state) =
     Inl (Exn ''Error'' ''BANXICO_PARSE_ERROR'') \<and>
   fst (fetch Part_001 strict_engine default_env
     (Response 200 (Json (payload (Str ''18.3452'') Undefined))) empty_state) =
     Inl (Exn ''Error'' ''BANXICO_PARSE_ERROR'') \<and>
   Date_parse strict_engine (''2025-13-45'' @ ''T18:00:00Z'') = None \<and>
   fetch Part_001 strict_engine default_env
     (Response 200 (Json (payload (Str ''18.3452'') (Str ''2025-13-45'')))) empty_state =
     (Inl (Exn ''RangeError'' ''Invalid time value''), sent default_env empty_state) \<and>
   cache (sent default_env empty_state) = cache_init"
proof -
  have ok: "(200::int) \<le> 200" "(200::int) \<le> 299"
    by simp_all
  have a: "dato_of (payload (Str ''NaN'') (Str ''2025-09-01'')) = Str ''NaN'' \<and>
      plain_date (fecha_of (payload (Str ''NaN'') (Str ''2025-09-01'')))"
    by (simp add: dato_payload fecha_payload plain_date_def)
  have b: "(\<exists>mid. Number strict_engine (dato_of (payload (Str ''18.3452'') Undefined)) = Inr mid) \<and>
      \<not> truthy (fecha_of (payload (Str ''18.3452'') Undefined))"
    by (simp add: dato_payload fecha_payload)
  have c: "Number strict_engine (dato_of (payload (Str ''18.3452'') (Str ''2025-13-45''))) =
        Inr (Fin (2581857371376163 / 140737488355328)) \<and>
      isFinite (Fin (2581857371376163 / 140737488355328)) \<and>
      fecha_in Part_001 (payload (Str ''18.3452'') (Str ''2025-13-45'')) =
        Inr (Str ''2025-13-45'') \<and>
      truthy (Str ''2025-13-45'') \<and>
      to_string strict_engine (Str ''2025-13-45'') = Inr ''2025-13-45'' \<and>
      Date_parse strict_engine (''2025-13-45'' @ ''T18:00:00Z'') = None"
    by (simp add: dato_payload fecha_payload number_18 fecha_in_def parseBanxicoDate_plain
        plain_date_def date_13_45 del: append.simps)
  have i: "fetch Part_001 strict_engine default_env
      (Response 200 (Json (payload (Str ''18.3452'') (Str ''2025-13-45'')))) empty_state =
      (Inl invalid_time, sent default_env empty_state)"
    using parse_error_exactly [OF ok, of Part_001 strict_engine default_env
        "payload (Str ''18.3452'') (Str ''2025-13-45'')" empty_state,
        THEN conjunct2, THEN conjunct2, THEN conjunct2, THEN conjunct2, THEN conjunct1] c
    by blast
  have n: "fst (fetch Index_js strict_engine default_env
      (Response 200 (Json (payload (Str ''NaN'') (Str ''2025-09-01'')))) empty_state) =
      Inl parse_error"
    using parse_error_exactly [OF ok, of Index_js strict_engine default_env
        "payload (Str ''NaN'') (Str ''2025-09-01'')" empty_state,
        THEN conjunct2, THEN conjunct1] a
    by blast
  have m: "fst (fetch Part_001 strict_engine default_env
      (Response 200 (Json (payload (Str ''18.3452'') Undefined))) empty_state) =
      Inl parse_error"
    using parse_error_exactly [OF ok, of Part_001 strict_engine default_env
        "payload (Str ''18.3452'') Undefined" empty_state,
        THEN conjunct2, THEN conjunct2, THEN conjunct1] b
    by blast
  have s: "cache (sent default_env empty_state) = cache_init"
    by (simp add: sent_def empty_state_def)
  show ?thesis
    unfolding n m i
    using date_13_45 s by (simp add: parse_error_def invalid_time_def del: append.simps)
qed

text \<open>
  C4 as stated fails: the rate \<open>-5\<close> is no positive number and yet a Quote is returned,
  and a date that is present but names no day makes \<open>toISOString\<close> throw its
  \<open>RangeError\<close>, which is not \<open>BANXICO_PARSE_ERROR\<close>.
\<close>

theorem negative_rate_is_accepted:
  "string_to_number ''-5'' = Fin (- 5) \<and>
   fst (fetch Part_001 strict_engine default_env
     (Response 200 (Json (payload (Str ''-5'') (Str ''01/09/2025'')))) empty_state) =
     Inr \<lparr>asOf = Some ''2025-09-01T18:00:00.000Z'', usd_mxn_mid = Some (Fin (- 5)),
          stale = False, raw = payload (Str ''-5'') (Str ''01/09/2025'')\<rparr> \<and>
   fst (fetch Part_001 strict_engine default_env
     (Response 200 (Json (payload (Str ''18.3452'') (Str ''2025-13-45'')))) empty_state) =
     Inl (Exn ''RangeError'' ''Invalid time value'')"
proof -
  have p: "Date_parse strict_engine (''2025-09-01'' @ ''T18:00:00Z'') = Some 1756749600000"
    using Date_parse_iso [OF iso_sep1] by simp
  have a: "fst (fetchBanxico_part_001 strict_engine default_env
     (Response 200 (Json (payload (Str ''-5'') (Str ''01/09/2025'')))) empty_state) =
     Inr \<lparr>asOf = Some ''2025-09-01T18:00:00.000Z'', usd_mxn_mid = Some (Fin (- 5)),
          stale = False, raw = payload (Str ''-5'') (Str ''01/09/2025'')\<rparr>"
    by (simp add: fetchBanxico_part_001_ok dato_payload fecha_payload number_minus_5 date_fix
        check_and_store_def p toISO_sep1 fixed_minus_5 Let_def del: append.simps)
  have d: "parseBanxicoDate (Str ''2025-13-45'') = Inr (Str ''2025-13-45'')"
    by (simp add: parseBanxicoDate_plain plain_date_def)
  have b: "fst (fetchBanxico_part_001 strict_engine default_env
     (Response 200 (Json (payload (Str ''18.3452'') (Str ''2025-13-45'')))) empty_state) =
     Inl (Exn ''RangeError'' ''Invalid time value'')"
    by (simp add: fetchBanxico_part_001_ok dato_payload fecha_payload number_18 d
        check_and_store_def date_13_45 invalid_time_def del: append.simps)
  show ?thesis
    using a b number_minus_5 by simp
qed

section \<open>Reading back what toFixed writes\<close>

lemma digit_char_props:
  assumes "0 \<le> d" and "d \<le> 9"
  shows "is_digit (digit_char d)" and "digit_val (digit_char d) = d"
    and "\<not> is_ws (digit_char d)"
proof -
  have "of_char (digit_char d) = (48 + d) mod 256"
    by (simp add: digit_char_def)
  also have "\<dots> = 48 + d"
    using assms by simp
  finally have e: "(of_char (digit_char d) :: int) = 48 + d" .
  show "is_digit (digit_char d)" using assms by (simp add: is_digit_def e)
  show "digit_val (digit_char d) = d" by (simp add: digit_val_def e)
  show "\<not> is_ws (digit_char d)" using assms by (simp add: is_ws_def e)
qed

lemma int_of_digits_snoc: "int_of_digits (xs @ [c]) = 10 * int_of_digits xs + digit_val c"
  by (simp add: int_of_digits_def)

lemma dec_props:
  "0 \<le> n \<Longrightarrow> list_all is_digit (dec n) \<and> dec n \<noteq> [] \<and> int_of_digits (dec n) = n"
proof (induction n rule: dec.induct)
  case (1 n)
  show ?case
  proof (cases "n < 10")
    case True
    with "1.prems" have "is_digit (digit_char n)" "digit_val (digit_char n) = n"
      by (simp_all add: digit_char_props)
    then show ?thesis
      using True by (subst (1 2 3) dec.simps) (simp add: int_of_digits_def)
  next
    case False
    then have ih: "list_all is_digit (dec (n div 10)) \<and> dec (n div 10) \<noteq> [] \<and>
        int_of_digits (dec (n div 10)) = n div 10"
      using "1.IH" "1.prems" by simp
    have d: "is_digit (digit_char (n mod 10))" "digit_val (digit_char (n mod 10)) = n mod 10"
      by (simp_all add: digit_char_props)
    show ?thesis
      using False ih d
      by (subst (1 2 3) dec.simps) (simp add: int_of_digits_snoc)
  qed
qed

lemma int_of_digits_append:
  "int_of_digits (xs @ ys) = int_of_digits xs * 10 ^ length ys + int_of_digits ys"
proof (induction ys rule: rev_induct)
  case Nil
  show ?case by (simp add: int_of_digits_def)
next
  case (snoc y ys)
  have "int_of_digits (xs @ ys @ [y]) = 10 * int_of_digits (xs @ ys) + digit_val y"
    using int_of_digits_snoc [of "xs @ ys" y] by simp
  then show ?case
    by (simp add: snoc.IH int_of_digits_snoc algebra_simps)
qed

lemma zero_char: "is_digit (CHR ''0'')" "digit_val (CHR ''0'') = 0"
  by (simp_all add: is_digit_def digit_val_def)

lemma int_of_digits_zeros: "int_of_digits (replicate k (CHR ''0'')) = 0"
proof (induction k)
  case 0
  show ?case by (simp add: int_of_digits_def)
next
  case (Suc k)
  have "replicate (Suc k) (CHR ''0'') = replicate k (CHR ''0'') @ [CHR ''0'']"
    by (simp add: replicate_append_same)
  then have "int_of_digits (replicate (Suc k) (CHR ''0'')) =
      10 * int_of_digits (replicate k (CHR ''0'')) + digit_val (CHR ''0'')"
    by (simp only: int_of_digits_snoc)
  then show ?case
    by (simp add: Suc.IH zero_char)
qed

lemma not_digit_chars:
  "\<not> is_digit (CHR ''.'')" "\<not> is_digit (CHR ''-'')" "\<not> is_digit (CHR ''I'')"
  "\<not> is_digit (CHR ''x'')" "\<not> is_digit (CHR ''X'')" "\<not> is_digit (CHR ''o'')"
  "\<not> is_digit (CHR ''O'')" "\<not> is_digit (CHR ''b'')" "\<not> is_digit (CHR ''B'')"
  "\<not> is_digit (CHR ''+'')"
  by (simp_all add: is_digit_def)

lemma digit_not_ws: "is_digit c \<Longrightarrow> \<not> is_ws c"
  by (auto simp: is_digit_def is_ws_def)

lemma minus_not_ws: "\<not> is_ws (CHR ''-'')"
  by (simp add: is_ws_def)

text \<open>The text that \<open>toFixed\<close> writes after the sign: digits, a point, digits.\<close>

lemma parse_point:
  assumes "list_all is_digit a" and "list_all is_digit b" and "a \<noteq> []"
  shows "parse_unsigned_decimal (a @ ''.'' @ b) =
     Some (of_int (int_of_digits (a @ b)) * pow10 (- int (length b)))"
proof -
  have t: "takeWhile is_digit (a @ ''.'' @ b) = a"
    using assms(1) by (simp add: list_all_iff not_digit_chars)
  have d: "dropWhile is_digit (a @ ''.'' @ b) = ''.'' @ b"
    using assms(1) by (simp add: list_all_iff not_digit_chars)
  have tb: "takeWhile is_digit b = b" "dropWhile is_digit b = []"
    using assms(2) by (simp_all add: list_all_iff)
  show ?thesis
    unfolding parse_unsigned_decimal_def t d Let_def
    using assms(3) by (simp add: tb parse_exponent_def)
qed

lemma trim_id:
  assumes "t \<noteq> []" and "\<not> is_ws (hd t)" and "\<not> is_ws (last t)"
  shows "trim t = t"
proof -
  have a: "dropWhile is_ws t = t"
    using assms(1,2) by (cases t) simp_all
  have b: "dropWhile is_ws (rev t) = rev t"
    using assms(1,3) by (cases "rev t") (simp_all add: last_rev [symmetric] hd_rev)
  show ?thesis
    by (simp add: trim_def a b)
qed


lemma take2_neq: "c \<notin> set t \<Longrightarrow> take 2 t \<noteq> [d, c]"
  by (metis in_set_takeD list.set_intros(1) list.set_intros(2))

lemma parse_decimal_point:
  assumes "list_all is_digit a" and "list_all is_digit b" and "a \<noteq> []"
  shows "parse_decimal (a @ ''.'' @ b) =
     round_double (of_int (int_of_digits (a @ b)) * pow10 (- int (length b)))"
    and "parse_decimal (''-'' @ a @ ''.'' @ b) =
     round_double (- (of_int (int_of_digits (a @ b)) * pow10 (- int (length b))))"
proof -
  obtain x xs where a: "a = x # xs"
    using assms(3) by (cases a) auto
  have x: "is_digit x"
    using assms(1) a by simp
  then have nx: "x \<noteq> CHR ''-''" "x \<noteq> CHR ''+''" "x \<noteq> CHR ''I''"
    using not_digit_chars by auto
  have inf: "a @ ''.'' @ b \<noteq> ''Infinity''"
    using a nx by simp
  show "parse_decimal (a @ ''.'' @ b) =
     round_double (of_int (int_of_digits (a @ b)) * pow10 (- int (length b)))"
    unfolding parse_decimal_def Let_def
    using inf parse_point [OF assms] a nx by simp
  show "parse_decimal (''-'' @ a @ ''.'' @ b) =
     round_double (- (of_int (int_of_digits (a @ b)) * pow10 (- int (length b))))"
    unfolding parse_decimal_def Let_def
    using inf parse_point [OF assms] by simp
qed

lemma number_of_point:
  assumes "list_all is_digit a" and "list_all is_digit b" and "a \<noteq> []" and "b \<noteq> []"
  shows "string_to_number (a @ ''.'' @ b) =
     round_double (of_int (int_of_digits (a @ b)) * pow10 (- int (length b)))"
    and "string_to_number (''-'' @ a @ ''.'' @ b) =
     round_double (- (of_int (int_of_digits (a @ b)) * pow10 (- int (length b))))"
proof -
  let ?t = "a @ ''.'' @ b"
  have hd_a: "is_digit (hd a)" and last_b: "is_digit (last b)"
    using assms by (simp_all add: list_all_iff)
  have h: "hd ?t = hd a" "last ?t = last b" "?t \<noteq> []"
    using assms(3,4) by simp_all
  have tr: "trim ?t = ?t"
    by (rule trim_id) (simp_all only: h hd_a last_b digit_not_ws not_False_eq_True)
  have tr': "trim (''-'' @ ?t) = ''-'' @ ?t"
    by (rule trim_id) (simp_all add: assms(4) last_b digit_not_ws minus_not_ws)
  have nin: "c \<notin> set ?t" if "\<not> is_digit c" and "c \<noteq> CHR ''.''" for c
    using that assms(1,2) by (auto simp: list_all_iff)
  have p: "take 2 ?t \<noteq> [CHR ''0'', c]" if "\<not> is_digit c" and "c \<noteq> CHR ''.''" for c
    using take2_neq [OF nin [OF that]] .
  have px: "take 2 ?t \<noteq> ''0x''" "take 2 ?t \<noteq> ''0X''" "take 2 ?t \<noteq> ''0o''"
    "take 2 ?t \<noteq> ''0O''" "take 2 ?t \<noteq> ''0b''" "take 2 ?t \<noteq> ''0B''"
    using p [of "CHR ''x''"] p [of "CHR ''X''"] p [of "CHR ''o''"] p [of "CHR ''O''"]
      p [of "CHR ''b''"] p [of "CHR ''B''"]
    by (simp_all only: not_digit_chars char.inject simp_thms)
  have px': "take 2 (''-'' @ ?t) \<noteq> [CHR ''0'', c]" for c
    by simp
  show "string_to_number ?t =
     round_double (of_int (int_of_digits (a @ b)) * pow10 (- int (length b)))"
    unfolding string_to_number_def Let_def tr
    using px h(3) parse_decimal_point(1) [OF assms(1-3)] by simp
  show "string_to_number (''-'' @ ?t) =
     round_double (- (of_int (int_of_digits (a @ b)) * pow10 (- int (length b))))"
    unfolding string_to_number_def Let_def tr'
    using px' parse_decimal_point(2) [OF assms(1-3)] by simp
qed


lemma number_of_fixed4:
  assumes "\<bar>q\<bar> < 10 ^ 21"
  shows "string_to_number (fixed4 E q) =
     round_double (if q < 0 then - (of_int \<lfloor>\<bar>q\<bar> * 10000 + 1 / 2\<rfloor> / 10000)
                   else of_int \<lfloor>\<bar>q\<bar> * 10000 + 1 / 2\<rfloor> / 10000)"
proof -
  define n where "n = \<lfloor>\<bar>q\<bar> * 10000 + 1 / 2\<rfloor>"
  define m where "m = (if length (dec n) \<le> 4
    then replicate (5 - length (dec n)) (CHR ''0'') @ dec n else dec n)"
  define a where "a = take (length m - 4) m"
  define b where "b = drop (length m - 4) m"
  have n0: "0 \<le> n"
    unfolding n_def by simp
  note d = dec_props [OF n0]
  have md: "list_all is_digit m"
    using d by (simp add: m_def zero_char list_all_iff)
  have mv: "int_of_digits m = n"
    using d by (simp add: m_def int_of_digits_append int_of_digits_zeros)
  have ml: "5 \<le> length m"
    by (simp add: m_def)
  have ab: "a @ b = m"
    by (simp add: a_def b_def)
  have an: "a \<noteq> []" and bl: "length b = 4"
    using ml by (auto simp: a_def b_def)
  have ad: "list_all is_digit a" and bd: "list_all is_digit b"
    using md ab by (metis list_all_append)+
  have bn: "b \<noteq> []"
    using bl by auto
  have f: "fixed4 E q = (if q < 0 then ''-'' else []) @ a @ ''.'' @ b"
    using assms by (simp add: fixed4_def Let_def n_def m_def a_def b_def)
  have "pow10 (- int (length b)) = 1 / 10000"
    by (simp add: bl pow10_def)
  then have v: "of_int (int_of_digits (a @ b)) * pow10 (- int (length b)) = (of_int n :: rat) / 10000"
    by (simp add: ab mv)
  show ?thesis
  proof (cases "q < 0")
    case True
    then show ?thesis
      using number_of_point(2) [OF ad bd an bn] by (simp only: f v if_True n_def)
  next
    case False
    then show ?thesis
      using number_of_point(1) [OF ad bd an bn]
      by (simp only: f v if_False n_def append_Nil)
  qed
qed

lemma rounded4_fixed:
  "rounded4 q (if q < 0 then - (of_int \<lfloor>\<bar>q\<bar> * 10000 + 1 / 2\<rfloor> / 10000)
               else of_int \<lfloor>\<bar>q\<bar> * 10000 + 1 / 2\<rfloor> / 10000)"
proof -
  define n where "n = \<lfloor>\<bar>q\<bar> * 10000 + 1 / 2\<rfloor>"
  have lo: "of_int n \<le> \<bar>q\<bar> * 10000 + 1 / 2"
    unfolding n_def by (rule of_int_floor_le)
  have hi: "\<bar>q\<bar> * 10000 + 1 / 2 < of_int n + 1"
    unfolding n_def by linarith
  have "of_int n / 10000 - \<bar>q\<bar> \<le> 1 / 20000" and "\<bar>q\<bar> - of_int n / 10000 \<le> 1 / 20000"
    using lo hi by (simp_all add: field_simps)
  then have near: "\<bar>of_int n / 10000 - \<bar>q\<bar>\<bar> \<le> 1 / 20000"
    by linarith
  show ?thesis
  proof (cases "q < 0")
    case True
    have "- (of_int n / 10000) = (of_int (- n) :: rat) / 10000"
      by simp
    moreover have "\<bar>- (of_int n / 10000) - q\<bar> \<le> 1 / 20000"
      using near True by linarith
    ultimately show ?thesis
      using True unfolding rounded4_def n_def [symmetric] by (metis (full_types))
  next
    case False
    have "\<bar>of_int n / 10000 - q\<bar> \<le> 1 / 20000"
      using near False by linarith
    then show ?thesis
      using False unfolding rounded4_def n_def [symmetric] by auto
  qed
qed


lemma fetch_Inr_response:
  assumes "fst (fetch ver E env up st) = Inr c"
  shows "\<exists>status j. up = Response status (Json j) \<and> 200 \<le> status \<and> status \<le> 299"
proof (cases up)
  case (Rejected e)
  with assms show ?thesis
    by (cases ver) (simp_all add: fetchBanxico_def fetchBanxico_part_001_def Let_def)
next
  case (Response status b)
  show ?thesis
  proof (cases b)
    case (NotJson e)
    with assms Response show ?thesis
      by (cases ver)
         (simp_all add: fetchBanxico_def fetchBanxico_part_001_def Let_def split: if_splits)
  next
    case (Json j)
    with assms Response show ?thesis
      by (cases ver)
         (simp_all add: fetchBanxico_def fetchBanxico_part_001_def Let_def split: if_splits)
  qed
qed

lemma fixed4_large:
  assumes "10 ^ 21 \<le> \<bar>q\<bar>"
  shows "fixed4 E q = (if q < 0 then ''-'' else []) @ num_str E \<bar>q\<bar>"
proof -
  have "(9007199254740992::rat) < 10 ^ 21"
    by simp
  with assms have "\<not> \<bar>q\<bar> \<le> 9007199254740992"
    by linarith
  with assms show ?thesis
    by (simp add: fixed4_def Let_def pos_to_string_def)
qed

lemma latest_success:
  assumes "needsRefresh E env now1 (cache st)" and "fst (fetch ver E env up st) = Inr c"
  shows "fst (latest ver E env up now1 now2 st) = respond E env now2 c"
  using assms fetch_Inr [OF assms(2)]
  by (cases "fetch ver E env up st") (simp add: latest_def)

text \<open>
  C8. On every successful fetch, the \<open>usd_mxn_mid\<close> of the Quote returned, of the cache
  and of the reply of the handler is \<open>Number(mid.toFixed(4))\<close> for the finite rate
  \<open>mid = Number(dato)\<close>. For a rate of magnitude below \<open>10^21\<close> that is the Number
  value (the nearest double) of a decimal \<open>r\<close> of four fractional digits that is nearest
  to \<open>mid\<close>. At \<open>10^21\<close> and beyond \<open>toFixed\<close> writes the number as \<open>toString\<close> does,
  which is the engine's.
\<close>

theorem stored_rate_rounded:
  assumes "fst (fetch ver E env up st) = Inr c"
  shows "\<exists>status j q. up = Response status (Json j) \<and>
     Number E (dato_of j) = Inr (Fin q) \<and>
     usd_mxn_mid c = Some (string_to_number (fixed4 E q)) \<and>
     usd_mxn_mid (cache (snd (fetch ver E env up st))) = usd_mxn_mid c \<and>
     (needsRefresh E env now1 (cache st) \<longrightarrow>
        (\<exists>r. fst (latest ver E env up now1 now2 st) = Json200 r \<and>
           usd_mxn_mid_out r = usd_mxn_mid c)) \<and>
     (\<bar>q\<bar> < 10 ^ 21 \<longrightarrow> (\<exists>r. rounded4 q r \<and> usd_mxn_mid c = Some (round_double r))) \<and>
     (10 ^ 21 \<le> \<bar>q\<bar> \<longrightarrow>
        usd_mxn_mid c =
          Some (string_to_number ((if q < 0 then ''-'' else []) @ num_str E \<bar>q\<bar>)))"
proof -
  from fetch_Inr_response [OF assms] obtain status j
    where up: "up = Response status (Json j)" and ok: "200 \<le> status" "status \<le> 299"
    by blast
  from fetch_Inr_whole [OF ok, of ver E env j st c] assms up obtain q t
    where n: "Number E (dato_of j) = Inr (Fin q)"
      and c: "c = \<lparr>asOf = Some (toISOString t),
                   usd_mxn_mid = Some (string_to_number (fixed4 E q)),
                   stale = False, raw = j\<rparr>"
    by blast
  have m: "usd_mxn_mid c = Some (string_to_number (fixed4 E q))"
    by (simp add: c)
  have s: "usd_mxn_mid (cache (snd (fetch ver E env up st))) = usd_mxn_mid c"
    using fetch_Inr [OF assms] by simp
  have l: "needsRefresh E env now1 (cache st) \<longrightarrow>
      (\<exists>r. fst (latest ver E env up now1 now2 st) = Json200 r \<and>
         usd_mxn_mid_out r = usd_mxn_mid c)"
    using latest_success [OF _ assms, of now1 now2] by (auto simp: respond_def)
  have small: "\<bar>q\<bar> < 10 ^ 21 \<longrightarrow> (\<exists>r. rounded4 q r \<and> usd_mxn_mid c = Some (round_double r))"
    using number_of_fixed4 [of q E] rounded4_fixed [of q] m by metis
  have large: "10 ^ 21 \<le> \<bar>q\<bar> \<longrightarrow>
      usd_mxn_mid c = Some (string_to_number ((if q < 0 then ''-'' else []) @ num_str E \<bar>q\<bar>))"
    using fixed4_large [of q E] m by simp
  show ?thesis
    using up n m s l small large by blast
qed


lemma number_18_345267:
  "string_to_number ''18.345267'' = Fin (2581866800787883 / 140737488355328)"
  by code_simp

lemma fixed_18_345267:
  "string_to_number (fixed4 E (2581866800787883 / 140737488355328)) =
     Fin (2581871445124999 / 140737488355328)"
  by code_simp

lemma round_18_3453:
  "round_double (183453 / 10000) = Fin (2581871445124999 / 140737488355328)"
  by code_simp

lemma fetch_18_345267:
  "fst (fetch Part_001 strict_engine default_env
     (Response 200 (Json (payload (Str ''18.345267'') (Str ''01/09/2025'')))) empty_state) =
   Inr \<lparr>asOf = Some ''2025-09-01T18:00:00.000Z'',
        usd_mxn_mid = Some (Fin (2581871445124999 / 140737488355328)),
        stale = False, raw = payload (Str ''18.345267'') (Str ''01/09/2025'')\<rparr>"
proof -
  have p: "Date_parse strict_engine (''2025-09-01'' @ ''T18:00:00Z'') = Some 1756749600000"
    using Date_parse_iso [OF iso_sep1] by simp
  show ?thesis
    by (simp add: fetchBanxico_part_001_ok dato_payload fecha_payload number_18_345267 date_fix
        check_and_store_def p toISO_sep1 fixed_18_345267 Let_def del: append.simps)
qed

theorem stored_rate_rounded_witness:
  "fst (fetch Part_001 strict_engine default_env
     (Response 200 (Json (payload (Str ''18.345267'') (Str ''01/09/2025'')))) empty_state) =
   Inr \<lparr>asOf = Some ''2025-09-01T18:00:00.000Z'',
        usd_mxn_mid = Some (Fin (2581871445124999 / 140737488355328)),
        stale = False, raw = payload (Str ''18.345267'') (Str ''01/09/2025'')\<rparr> \<and>
   Number strict_engine (Str ''18.345267'') = Inr (Fin (2581866800787883 / 140737488355328)) \<and>
   (\<exists>r. rounded4 (2581866800787883 / 140737488355328) r \<and>
      round_double r = Fin (2581871445124999 / 140737488355328)) \<and>
   round_double (183453 / 10000) = Fin (2581871445124999 / 140737488355328)"
proof -
  let ?j = "payload (Str ''18.345267'') (Str ''01/09/2025'')"
  from stored_rate_rounded [OF fetch_18_345267, of 0 0]
  obtain status j q where up: "Response 200 (Json ?j) = Response status (Json j)"
    and n: "Number strict_engine (dato_of j) = Inr (Fin q)"
    and r: "\<bar>q\<bar> < 10 ^ 21 \<longrightarrow>
      (\<exists>r. rounded4 q r \<and> Some (Fin (2581871445124999 / 140737488355328)) = Some (round_double r))"
    by auto
  from up have j: "j = ?j"
    by simp
  from n have q: "q = 2581866800787883 / 140737488355328"
    by (simp add: j dato_payload number_18_345267)
  have "\<bar>q\<bar> < 10 ^ 21"
    by (simp add: q)
  with r have "\<exists>r. rounded4 q r \<and> round_double r = Fin (2581871445124999 / 140737488355328)"
    by auto
  then show ?thesis
    using fetch_18_345267 round_18_3453 by (simp add: q number_18_345267)
qed

section \<open>A server that holds a quote\<close>

lemma first_quote:
  "latest Part_001 strict_engine default_env
     (Response 200 (Json (payload (Str ''18.3452'') (Str ''01/09/2025''))))
     1756800000000 1756800000000 empty_state =
   (respond strict_engine default_env 1756800000000 (cache refreshed), refreshed)"
proof -
  have n: "needsRefresh strict_engine default_env 1756800000000 (cache empty_state)"
    by (simp add: empty_state_def empty_needsRefresh)
  show ?thesis
    using n
    by (simp add: latest_def fetch_part_001_sep1 dato_payload fecha_payload refreshed_def
        sent_def empty_state_def)
qed

lemma reachable_refreshed: "reachable Part_001 strict_engine default_env refreshed"
proof -
  have "reachable Part_001 strict_engine default_env empty_state"
    unfolding empty_state_def by (rule reachable.start)
  from reachable.quote [OF this, of "Response 200 (Json (payload (Str ''18.3452'') (Str ''01/09/2025'')))"
      1756800000000 1756800000000]
  show ?thesis
    by (simp add: first_quote)
qed

lemma refreshed_aged:
  "needsRefresh strict_engine default_env 1756836000000 (cache refreshed)"
proof -
  have a: "asOf (cache refreshed) = Some ''2025-09-01T18:00:00.000Z''"
    by (simp add: refreshed_def)
  have m: "MAX_CACHE_MS default_env = Fin 3600000"
    by (simp add: MAX_CACHE_MS_def env_number_def default_env_def)
  show ?thesis
    using needsRefresh_Fin [OF parse_held _ a m, of 1756836000000] by simp
qed

lemma second_quote:
  "cache (snd (latest Part_001 strict_engine default_env
     (Response 200 (Json (payload (Str ''18.345267'') (Str ''01/09/2025''))))
     1756836000000 1756836000000 refreshed)) =
   \<lparr>asOf = Some ''2025-09-01T18:00:00.000Z'',
    usd_mxn_mid = Some (Fin (2581871445124999 / 140737488355328)),
    stale = False, raw = payload (Str ''18.345267'') (Str ''01/09/2025'')\<rparr>"
proof -
  have p: "Date_parse strict_engine (''2025-09-01'' @ ''T18:00:00Z'') = Some 1756749600000"
    using Date_parse_iso [OF iso_sep1] by simp
  show ?thesis
    using refreshed_aged
    by (simp add: latest_def fetchBanxico_part_001_ok dato_payload fecha_payload
        number_18_345267 date_fix check_and_store_def p toISO_sep1 fixed_18_345267 Let_def
        del: append.simps)
qed

lemma refreshed_503:
  "fst (fetch Part_001 strict_engine default_env (Response 503 (Json Null)) refreshed) =
     Inl (upstream_error strict_engine 503)"
  by (rule fetch_status) simp

text \<open>
  The invariant of C7 on a server that holds a quote: the state after a first successful
  refresh is reachable and holds both fields; a second successful refresh replaces the
  whole record; a failed refresh and a health check leave it as it was.
\<close>

theorem cache_empty_or_complete_witness:
  "reachable Part_001 strict_engine default_env refreshed \<and>
   asOf (cache refreshed) = Some ''2025-09-01T18:00:00.000Z'' \<and>
   usd_mxn_mid (cache refreshed) = Some (Fin (2581857371376163 / 140737488355328)) \<and>
   empty_or_complete (cache refreshed) \<and>
   cache (snd (latest Part_001 strict_engine default_env
     (Response 200 (Json (payload (Str ''18.345267'') (Str ''01/09/2025''))))
     1756836000000 1756836000000 refreshed)) =
     \<lparr>asOf = Some ''2025-09-01T18:00:00.000Z'',
      usd_mxn_mid = Some (Fin (2581871445124999 / 140737488355328)),
      stale = False, raw = payload (Str ''18.345267'') (Str ''01/09/2025'')\<rparr> \<and>
   empty_or_complete (cache (snd (latest Part_001 strict_engine default_env
     (Response 200 (Json (payload (Str ''18.345267'') (Str ''01/09/2025''))))
     1756836000000 1756836000000 refreshed))) \<and>
   cache (snd (latest Part_001 strict_engine default_env (Response 503 (Json Null))
     1756836000000 1756836000000 refreshed)) = cache refreshed \<and>
   empty_or_complete (cache (snd (latest Part_001 strict_engine default_env
     (Response 503 (Json Null)) 1756836000000 1756836000000 refreshed))) \<and>
   cache (snd (healthz strict_engine default_env 1756836000000 refreshed)) = cache refreshed"
proof -
  note r = reachable_refreshed
  have f: "cache (snd (latest Part_001 strict_engine default_env (Response 503 (Json Null))
      1756836000000 1756836000000 refreshed)) = cache refreshed"
    using latest_cache_fail [OF refreshed_503] .
  have c: "asOf (cache refreshed) = Some ''2025-09-01T18:00:00.000Z''"
    "usd_mxn_mid (cache refreshed) = Some (Fin (2581857371376163 / 140737488355328))"
    by (simp_all add: refreshed_def)
  show ?thesis
    using cache_empty_or_complete [OF r,
        of "Response 200 (Json (payload (Str ''18.345267'') (Str ''01/09/2025'')))"
          1756836000000 1756836000000 1756836000000]
      cache_empty_or_complete [OF r, of "Response 503 (Json Null)"
          1756836000000 1756836000000 1756836000000]
      r f c second_quote
    by simp
qed

end
